theory Spec2Isabelle
  imports Complex_Main
begin

section \<open>The HMDA pipeline definition (pipelines/hmda/pipeline.py)\<close>

text \<open>
  The module builds a description of a SageMaker pipeline: configuration objects whose
  fields are the keyword arguments of the SDK constructors it calls. Every SDK object is a
  record of the arguments the source passes (an argument the source leaves out is absent
  from the record, or \<open>None\<close> where the source's own code reads it), every reference
  to a value that exists only when the pipeline runs is a symbolic value, and every call
  that can raise returns a sum with the error on the left.
\<close>

subsection \<open>Errors and the execution environment\<close>

datatype error = Exception string
  \<comment> \<open>an instance of Python's \<open>Exception\<close>, with the text \<open>str(e)\<close>\<close>

text \<open>The dictionaries that the SageMaker client returns, and the client itself.\<close>

record 'tag sagemaker_client =
  describe_project :: "string option \<Rightarrow> error + (string \<rightharpoonup> string)"
  list_tags :: "string \<Rightarrow> error + (string \<rightharpoonup> 'tag list)"

definition subscript :: "('k \<rightharpoonup> 'v) \<Rightarrow> 'k \<Rightarrow> string \<Rightarrow> error + 'v" where
  \<comment> \<open>\<open>d[k]\<close>: a missing key raises KeyError, whose text is the key\<close>
  "subscript d k shown = (case d k of None \<Rightarrow> Inl (Exception shown) | Some v \<Rightarrow> Inr v)"

subsection \<open>get_pipeline_custom_tags\<close>

fun append_all :: "'a list \<Rightarrow> 'a list \<Rightarrow> 'a list" where
  \<comment> \<open>\<open>for project_tag in project_tags: new_tags.append(project_tag)\<close>\<close>
  "append_all new_tags [] = new_tags"
| "append_all new_tags (project_tag # project_tags) =
     append_all (new_tags @ [project_tag]) project_tags"

definition fetch_project_tags ::
  "(string \<Rightarrow> error + 'tag sagemaker_client) \<Rightarrow> string \<Rightarrow> string option \<Rightarrow> error + 'tag list"
where
  \<comment> \<open>the statements of the \<open>try\<close> block that come before the loop; the first argument is
      \<open>get_sagemaker_client\<close>, which opens a boto3 session for the region\<close>
  "fetch_project_tags get_sagemaker_client region sagemaker_project_name =
     (case get_sagemaker_client region of
        Inl e \<Rightarrow> Inl e
      | Inr sm_client \<Rightarrow>
          (case describe_project sm_client sagemaker_project_name of
             Inl e \<Rightarrow> Inl e
           | Inr response \<Rightarrow>
               (case subscript response ''ProjectArn'' ''ProjectArn'' of
                  Inl e \<Rightarrow> Inl e
                | Inr sagemaker_project_arn \<Rightarrow>
                    (case list_tags sm_client sagemaker_project_arn of
                       Inl e \<Rightarrow> Inl e
                     | Inr response' \<Rightarrow> subscript response' ''Tags'' ''Tags''))))"

record 'tag tags_result =
  printed :: "string list"
  returned :: "error + 'tag list"

definition get_pipeline_custom_tags ::
  "(string \<Rightarrow> error + 'tag sagemaker_client) \<Rightarrow> 'tag list \<Rightarrow> string \<Rightarrow> string option
     \<Rightarrow> 'tag tags_result"
where
  \<comment> \<open>\<open>returned\<close> is \<open>Inl\<close> when an exception leaves the function; \<open>printed\<close> are the
      lines written by \<open>print\<close>\<close>
  "get_pipeline_custom_tags get_sagemaker_client new_tags region sagemaker_project_name =
     (case fetch_project_tags get_sagemaker_client region sagemaker_project_name of
        Inr project_tags \<Rightarrow>
          \<lparr>printed = [], returned = Inr (append_all new_tags project_tags)\<rparr>
      | Inl (Exception e) \<Rightarrow>
          \<lparr>printed = [''Error getting project tags: '' @ e], returned = Inr new_tags\<rparr>)"

subsection \<open>Values of the pipeline description\<close>

datatype execution_variable = PIPELINE_EXECUTION_ID

datatype parameter =
    ParameterInteger string int
  | ParameterString string string
  | ParameterBoolean string bool
  \<comment> \<open>the name and the default value\<close>

text \<open>
  What a keyword argument may hold: a Python literal, a declared pipeline parameter, a
  property of a step (the step is named, as the SDK serialises the reference), an
  execution variable, or a \<open>Join\<close> of such values.
\<close>

datatype pipeline_value =
    Str string
  | IntV int
  | Param parameter
  | Property string "string list"
  | ExecutionVariable execution_variable
  | Join string "pipeline_value list"

record session =
  sess_region :: string
  sess_default_bucket :: "string option"

record pipeline_session =
  psess_region :: string
  psess_default_bucket :: string

subsection \<open>Processing jobs\<close>

record processing_input =
  pi_source :: pipeline_value
  pi_destination :: string

record processing_output =
  po_output_name :: string
  po_source :: string

record sklearn_processor =
  skp_framework_version :: string
  skp_instance_type :: pipeline_value
  skp_instance_count :: pipeline_value
  skp_base_job_name :: string
  skp_sagemaker_session :: pipeline_session
  skp_role :: string

record processor_run =
  \<comment> \<open>the step arguments that \<open>sklearn_processor.run(...)\<close> returns: the processor and
      the keyword arguments of the call, \<open>None\<close> for the ones left out\<close>
  run_processor :: sklearn_processor
  run_inputs :: "processing_input list option"
  run_outputs :: "processing_output list"
  run_code :: string
  run_arguments :: "pipeline_value list option"

record property_file =
  pf_name :: string
  pf_output_name :: string
  pf_path :: string

record processing_step =
  ps_name :: string
  ps_step_args :: processor_run
  ps_property_files :: "property_file list option"

subsection \<open>Quality and Clarify checks\<close>

record check_job_config =
  cjc_role :: string
  cjc_instance_count :: int
  cjc_instance_type :: string
  cjc_volume_size_in_gb :: int
  cjc_sagemaker_session :: pipeline_session

record dataset_format =
  \<comment> \<open>\<open>DatasetFormat.csv(header, output_columns_position)\<close>\<close>
  csv_header :: bool
  csv_output_columns_position :: "string option"

record data_quality_check_config =
  dq_baseline_dataset :: pipeline_value
  dq_dataset_format :: dataset_format
  dq_output_s3_uri :: pipeline_value

record model_quality_check_config =
  mq_baseline_dataset :: pipeline_value
  mq_dataset_format :: dataset_format
  mq_output_s3_uri :: pipeline_value
  mq_problem_type :: string
  mq_inference_attribute :: string
  mq_ground_truth_attribute :: string

datatype quality_check_config =
    DataQualityCheckConfig data_quality_check_config
  | ModelQualityCheckConfig model_quality_check_config

record quality_check_step =
  qcs_name :: string
  qcs_skip_check :: pipeline_value
  qcs_register_new_baseline :: pipeline_value
  qcs_quality_check_config :: quality_check_config
  qcs_check_job_config :: check_job_config
  qcs_supplied_baseline_statistics :: pipeline_value
  qcs_supplied_baseline_constraints :: pipeline_value
  qcs_model_package_group_name :: string

record data_config =
  dc_s3_data_input_path :: pipeline_value
  dc_s3_output_path :: pipeline_value
  dc_s3_analysis_config_output_path :: string
  dc_label :: string
  dc_headers :: "string list"
  dc_dataset_type :: string

record bias_config =
  bc_label_values_or_threshold :: "int list"
  bc_facet_name :: "string list"

record model_config =
  mc_model_name :: pipeline_value
  mc_instance_count :: int
  mc_instance_type :: string

datatype model_predicted_label_config = ModelPredictedLabelConfig
  \<comment> \<open>constructed with no argument\<close>

record shap_config =
  shap_seed :: int
  shap_num_samples :: int
  shap_num_clusters :: int

datatype clarify_check_config =
    DataBiasCheckConfig data_config bias_config
  | ModelBiasCheckConfig data_config bias_config model_config model_predicted_label_config
  | ModelExplainabilityCheckConfig data_config model_config shap_config

record clarify_check_step =
  ccs_name :: string
  ccs_clarify_check_config :: clarify_check_config
  ccs_check_job_config :: check_job_config
  ccs_skip_check :: pipeline_value
  ccs_register_new_baseline :: pipeline_value
  ccs_supplied_baseline_constraints :: "pipeline_value option"
  ccs_model_package_group_name :: string

subsection \<open>Automated model search, model and batch transform\<close>

record auto_ml =
  aml_role :: string
  aml_target_attribute_name :: string
  aml_output_kms_key :: "string option"
  aml_output_path :: string
  aml_base_job_name :: string
  aml_compression_type :: "string option"
  aml_sagemaker_session :: pipeline_session
  aml_volume_kms_key :: "string option"
  aml_encrypt_inter_container_traffic :: "bool option"
  aml_vpc_config :: "(string \<times> string list) list option"
  aml_problem_type :: string
  aml_max_candidates :: int
  aml_max_runtime_per_training_job_in_seconds :: int
  aml_total_job_runtime_in_seconds :: int
  aml_job_objective :: "(string \<times> string) list"
  aml_generate_candidate_definitions_only :: bool
  aml_tags :: "(string \<times> string) list option"
  aml_content_type :: string
  aml_s3_data_type :: string
  aml_feature_specification_s3_uri :: "string option"
  aml_validation_fraction :: rat
  aml_mode :: string
  aml_auto_generate_endpoint_name :: string
  aml_endpoint_name :: string
  aml_sample_weight_attribute_name :: "string option"

record auto_ml_input =
  ami_inputs :: pipeline_value
  ami_target_attribute_name :: string
  ami_compression :: "string option"
  ami_channel_type :: string
  ami_content_type :: string
  ami_s3_data_type :: string
  ami_sample_weight_attribute_name :: "string option"

record auto_ml_fit =
  \<comment> \<open>the step arguments that \<open>auto_ml.fit(...)\<close> returns\<close>
  fit_auto_ml :: auto_ml
  fit_inputs :: "auto_ml_input list"
  fit_wait :: bool
  fit_logs :: bool
  fit_job_name :: string

record auto_ml_step =
  ams_name :: string
  ams_step_args :: auto_ml_fit
  ams_depends_on :: "string list"

record best_model =
  \<comment> \<open>\<open>step_automl.get_best_auto_ml_model(sagemaker_session, role)\<close>: the model is read
      from the properties of the step it is asked of\<close>
  bm_step_name :: string
  bm_sagemaker_session :: pipeline_session
  bm_role :: string

record metrics_source =
  ms_s3_uri :: pipeline_value
  ms_content_type :: string

datatype analysis_config_uri = MonitoringAnalysisConfigUri clarify_check_config
  \<comment> \<open>the attribute \<open>monitoring_analysis_config_uri\<close> of a check configuration, which the
      SDK fills in; it is kept as a reference to the configuration it is read from\<close>

record file_source =
  fs_s3_uri :: analysis_config_uri
  fs_content_type :: string

record model_metrics =
  mm_model_data_statistics :: metrics_source
  mm_model_data_constraints :: metrics_source
  mm_bias_pre_training :: metrics_source
  mm_model_statistics :: metrics_source
  mm_model_constraints :: metrics_source
  mm_bias_post_training :: metrics_source
  mm_bias :: metrics_source
  mm_explainability :: metrics_source

record drift_check_baselines =
  dcb_model_data_statistics :: metrics_source
  dcb_model_data_constraints :: metrics_source
  dcb_bias_pre_training_constraints :: metrics_source
  dcb_bias_config_file :: file_source
  dcb_model_statistics :: metrics_source
  dcb_model_constraints :: metrics_source
  dcb_bias_post_training_constraints :: metrics_source
  dcb_explainability_constraints :: metrics_source
  dcb_explainability_config_file :: file_source

record model_create =
  \<comment> \<open>\<open>best_auto_ml_model.create(instance_type)\<close>\<close>
  mcr_model :: best_model
  mcr_instance_type :: string

record model_register =
  \<comment> \<open>\<open>best_auto_ml_model.register(...)\<close>\<close>
  reg_model :: best_model
  reg_content_types :: "string list"
  reg_response_types :: "string list"
  reg_inference_instances :: "string list"
  reg_transform_instances :: "string list"
  reg_model_package_group_name :: string
  reg_approval_status :: pipeline_value
  reg_model_metrics :: model_metrics
  reg_drift_check_baselines :: drift_check_baselines

datatype model_step_args = Create model_create | Register model_register

record model_step =
  mst_name :: string
  mst_step_args :: model_step_args

record transformer =
  tr_model_name :: pipeline_value
  tr_instance_type :: string
  tr_instance_count :: int
  tr_accept :: string
  tr_assemble_with :: string
  tr_output_path :: string
  tr_sagemaker_session :: pipeline_session

record transform_input =
  ti_data :: pipeline_value

record transformer_transform =
  \<comment> \<open>the step arguments that \<open>transformer.transform(...)\<close> returns\<close>
  tf_transformer :: transformer
  tf_data :: pipeline_value
  tf_input_filter :: string
  tf_join_source :: string
  tf_output_filter :: string
  tf_content_type :: string
  tf_split_type :: string

record transform_step =
  tst_name :: string
  tst_step_args :: transformer_transform

subsection \<open>Conditions, steps and the pipeline\<close>

datatype operand =
    JsonGet string property_file string
      \<comment> \<open>\<open>step_name\<close>, \<open>property_file\<close>, \<open>json_path\<close>\<close>
  | Number rat

datatype condition = ConditionGreaterThanOrEqualTo operand operand
  \<comment> \<open>\<open>left\<close>, \<open>right\<close>\<close>

datatype step =
    ProcessingStep processing_step
  | QualityCheckStep quality_check_step
  | ClarifyCheckStep clarify_check_step
  | AutoMLStep auto_ml_step
  | ModelStep model_step
  | TransformStep transform_step
  | ConditionStep string "condition list" "step list" "step list"
      \<comment> \<open>\<open>name\<close>, \<open>conditions\<close>, \<open>if_steps\<close>, \<open>else_steps\<close>\<close>

record pipeline =
  pl_name :: string
  pl_parameters :: "pipeline_value list"
  pl_steps :: "step list"
  pl_sagemaker_session :: pipeline_session

fun step_name :: "step \<Rightarrow> string" where
  "step_name (ProcessingStep s) = ps_name s"
| "step_name (QualityCheckStep s) = qcs_name s"
| "step_name (ClarifyCheckStep s) = ccs_name s"
| "step_name (AutoMLStep s) = ams_name s"
| "step_name (ModelStep s) = mst_name s"
| "step_name (TransformStep s) = tst_name s"
| "step_name (ConditionStep name conditions if_steps else_steps) = name"

definition properties :: "string \<Rightarrow> string list \<Rightarrow> pipeline_value" where
  \<comment> \<open>\<open>step.properties.A.B["k"].C\<close> of the step with that name, the path as a list\<close>
  "properties name path = Property name path"

definition monitoring_analysis_config_uri :: "clarify_check_config \<Rightarrow> analysis_config_uri" where
  "monitoring_analysis_config_uri config = MonitoringAnalysisConfigUri config"

subsection \<open>Sessions and the environment of get_pipeline\<close>

text \<open>
  What \<open>get_pipeline\<close> asks of boto3, of the SDK and of the platform, and where each of
  them can raise: creating the boto3 session and its clients for a region, finding the
  identity the code runs under, naming the platform's bucket for the account and the
  region, checking or creating the bucket on S3, and constructing the objects of the
  steps (a processor that finds no image for its region, an empty role).
\<close>

record environment =
  BASE_DIR :: string
    \<comment> \<open>the directory of the module\<close>
  boto_clients :: "string \<Rightarrow> error option"
    \<comment> \<open>the exception that \<open>boto3.Session(region_name=region)\<close> and its \<open>client\<close>
        calls raise for a region, \<open>None\<close> when they succeed\<close>
  get_execution_role :: "session \<Rightarrow> error + string"
    \<comment> \<open>\<open>sagemaker.session.get_execution_role\<close>: the identity the code runs under\<close>
  platform_default_bucket :: "string \<Rightarrow> error + string"
    \<comment> \<open>the name of the bucket the platform provides for the account in a region\<close>
  ensure_bucket :: "string \<Rightarrow> string \<Rightarrow> error option"
    \<comment> \<open>the exception that checking a bucket on S3, and creating it when it is missing,
        raises for a region and a bucket name, \<open>None\<close> when the bucket can be used\<close>
  sdk_rejects :: "step list \<Rightarrow> error option"
    \<comment> \<open>the exception that a constructor or a call of the SDK raises while these steps
        are built from their arguments, \<open>None\<close> when all of them are accepted\<close>

record get_pipeline_args =
  arg_region :: string
  arg_role :: "string option"
  arg_default_bucket :: "string option"
  arg_model_package_group_name :: string
  arg_pipeline_name :: string
  arg_base_job_prefix :: string
  arg_processing_instance_type :: pipeline_value
  arg_training_instance_type :: pipeline_value
  arg_sagemaker_project_name :: "string option"

definition default_args :: "string \<Rightarrow> get_pipeline_args" where
  \<comment> \<open>a call \<open>get_pipeline(region)\<close>: the defaults of the signature\<close>
  "default_args region =
     \<lparr>arg_region = region, arg_role = None, arg_default_bucket = None,
      arg_model_package_group_name = ''HMDAPackageGroup'',
      arg_pipeline_name = ''HMDAPipeline'',
      arg_base_job_prefix = ''HMDA'',
      arg_processing_instance_type = Str ''ml.t3.large'',
      arg_training_instance_type = Str ''ml.m5.xlarge'',
      arg_sagemaker_project_name = None\<rparr>"

definition Session :: "string \<Rightarrow> string option \<Rightarrow> session" where
  \<comment> \<open>\<open>sagemaker.session.Session(boto_session, ..., default_bucket)\<close> on the boto3
      session and clients of a region\<close>
  "Session region default_bucket =
     \<lparr>sess_region = region, sess_default_bucket = default_bucket\<rparr>"

definition PipelineSession :: "string \<Rightarrow> string \<Rightarrow> pipeline_session" where
  \<comment> \<open>\<open>PipelineSession(boto_session, sagemaker_client, default_bucket)\<close> on the boto3
      session and client of a region\<close>
  "PipelineSession region default_bucket =
     \<lparr>psess_region = region, psess_default_bucket = default_bucket\<rparr>"

definition get_session :: "environment \<Rightarrow> string \<Rightarrow> string option \<Rightarrow> error + session" where
  "get_session env region default_bucket =
     (case boto_clients env region of
        Some e \<Rightarrow> Inl e
      | None \<Rightarrow> Inr (Session region default_bucket))"

definition get_pipeline_session ::
  "environment \<Rightarrow> string \<Rightarrow> string \<Rightarrow> error + pipeline_session" where
  "get_pipeline_session env region default_bucket =
     (case boto_clients env region of
        Some e \<Rightarrow> Inl e
      | None \<Rightarrow> Inr (PipelineSession region default_bucket))"

definition session_default_bucket :: "environment \<Rightarrow> session \<Rightarrow> error + string" where
  \<comment> \<open>\<open>Session.default_bucket()\<close> of the SDK: the bucket the session was created with,
      and the platform's bucket for the region when it was created with \<open>None\<close> or with
      the empty string; in both cases the bucket is checked on S3, and created when it is
      missing, before its name is returned\<close>
  "session_default_bucket env s =
     (case (case sess_default_bucket s of
              None \<Rightarrow> platform_default_bucket env (sess_region s)
            | Some bucket \<Rightarrow>
                if bucket = [] then platform_default_bucket env (sess_region s)
                else Inr bucket) of
        Inl e \<Rightarrow> Inl e
      | Inr bucket \<Rightarrow>
          (case ensure_bucket env (sess_region s) bucket of
             Some e \<Rightarrow> Inl e
           | None \<Rightarrow> Inr bucket))"

definition os_path_join :: "string \<Rightarrow> string \<Rightarrow> string" where
  \<comment> \<open>\<open>os.path.join(a, b)\<close> for a relative \<open>b\<close>\<close>
  "os_path_join a b =
     (if a = [] then b else if last a = CHR ''/'' then a @ b else a @ ''/'' @ b)"

subsection \<open>The parameters of the pipeline\<close>

definition processing_instance_count :: parameter where
  "processing_instance_count = ParameterInteger ''ProcessingInstanceCount'' 1"

definition model_approval_status :: parameter where
  "model_approval_status = ParameterString ''ModelApprovalStatus'' ''PendingManualApproval''"

definition input_data :: "string \<Rightarrow> parameter" where
  "input_data default_bucket =
     ParameterString ''InputDataUrl'' (''s3://'' @ default_bucket @ ''/dataset/state_DC.csv'')"

definition skip_check_data_quality :: parameter where
  "skip_check_data_quality = ParameterBoolean ''SkipDataQualityCheck'' False"

definition register_new_baseline_data_quality :: parameter where
  "register_new_baseline_data_quality = ParameterBoolean ''RegisterNewDataQualityBaseline'' False"

definition supplied_baseline_statistics_data_quality :: parameter where
  "supplied_baseline_statistics_data_quality = ParameterString ''DataQualitySuppliedStatistics'' ''''"

definition supplied_baseline_constraints_data_quality :: parameter where
  "supplied_baseline_constraints_data_quality =
     ParameterString ''DataQualitySuppliedConstraints'' ''''"

definition skip_check_data_bias :: parameter where
  "skip_check_data_bias = ParameterBoolean ''SkipDataBiasCheck'' False"

definition register_new_baseline_data_bias :: parameter where
  "register_new_baseline_data_bias = ParameterBoolean ''RegisterNewDataBiasBaseline'' False"

definition supplied_baseline_constraints_data_bias :: parameter where
  "supplied_baseline_constraints_data_bias =
     ParameterString ''DataBiasSuppliedBaselineConstraints'' ''''"

definition skip_check_model_quality :: parameter where
  "skip_check_model_quality = ParameterBoolean ''SkipModelQualityCheck'' False"

definition register_new_baseline_model_quality :: parameter where
  "register_new_baseline_model_quality =
     ParameterBoolean ''RegisterNewModelQualityBaseline'' False"

definition supplied_baseline_statistics_model_quality :: parameter where
  "supplied_baseline_statistics_model_quality =
     ParameterString ''ModelQualitySuppliedStatistics'' ''''"

definition supplied_baseline_constraints_model_quality :: parameter where
  "supplied_baseline_constraints_model_quality =
     ParameterString ''ModelQualitySuppliedConstraints'' ''''"

definition skip_check_model_bias :: parameter where
  "skip_check_model_bias = ParameterBoolean ''SkipModelBiasCheck'' False"

definition register_new_baseline_model_bias :: parameter where
  "register_new_baseline_model_bias = ParameterBoolean ''RegisterNewModelBiasBaseline'' False"

definition supplied_baseline_constraints_model_bias :: parameter where
  "supplied_baseline_constraints_model_bias =
     ParameterString ''ModelBiasSuppliedBaselineConstraints'' ''''"

definition skip_check_model_explainability :: parameter where
  "skip_check_model_explainability = ParameterBoolean ''SkipModelExplainabilityCheck'' False"

definition register_new_baseline_model_explainability :: parameter where
  "register_new_baseline_model_explainability =
     ParameterBoolean ''RegisterNewModelExplainabilityBaseline'' False"

definition supplied_baseline_constraints_model_explainability :: parameter where
  "supplied_baseline_constraints_model_explainability =
     ParameterString ''ModelExplainabilitySuppliedBaselineConstraints'' ''''"

subsection \<open>The steps, in the order get_pipeline builds them\<close>

text \<open>
  Each definition is one local variable of \<open>get_pipeline\<close>, as a function of the
  arguments \<open>a\<close> of the call and of the \<open>role\<close> and \<open>default_bucket\<close> that the first
  lines of the function resolve; \<open>pipeline_session\<close> is the \<open>PipelineSession\<close> of the
  region and that bucket, which is what \<open>get_pipeline_session\<close> returns when it
  returns; \<open>step_args\<close> and \<open>sklearn_processor\<close>, which the source assigns more than
  once, carry the name of the step they are built for.
\<close>

definition sklearn_processor_preprocess ::
  "get_pipeline_args \<Rightarrow> string \<Rightarrow> string \<Rightarrow> sklearn_processor" where
  "sklearn_processor_preprocess a role default_bucket =
     \<lparr>skp_framework_version = ''1.2-1'',
      skp_instance_type = arg_processing_instance_type a,
      skp_instance_count = Param processing_instance_count,
      skp_base_job_name = arg_base_job_prefix a @ ''/sklearn-hmda-preprocess'',
      skp_sagemaker_session = PipelineSession (arg_region a) default_bucket,
      skp_role = role\<rparr>"

definition step_process_args ::
  "environment \<Rightarrow> get_pipeline_args \<Rightarrow> string \<Rightarrow> string \<Rightarrow> processor_run" where
  "step_process_args env a role default_bucket =
     \<lparr>run_processor = sklearn_processor_preprocess a role default_bucket,
      run_inputs = None,
      run_outputs =
        [\<lparr>po_output_name = ''train'', po_source = ''/opt/ml/processing/train''\<rparr>,
         \<lparr>po_output_name = ''train_no_header'',
          po_source = ''/opt/ml/processing/train_no_header''\<rparr>,
         \<lparr>po_output_name = ''test'', po_source = ''/opt/ml/processing/test''\<rparr>],
      run_code = os_path_join (BASE_DIR env) ''preprocess.py'',
      run_arguments = Some [Str ''--input-data'', Param (input_data default_bucket)]\<rparr>"

definition step_process ::
  "environment \<Rightarrow> get_pipeline_args \<Rightarrow> string \<Rightarrow> string \<Rightarrow> processing_step" where
  "step_process env a role default_bucket =
     \<lparr>ps_name = ''PreprocessHMDAData'',
      ps_step_args = step_process_args env a role default_bucket,
      ps_property_files = None\<rparr>"

definition check_job_config :: "get_pipeline_args \<Rightarrow> string \<Rightarrow> string \<Rightarrow> check_job_config" where
  "check_job_config a role default_bucket =
     \<lparr>cjc_role = role, cjc_instance_count = 1, cjc_instance_type = ''ml.t3.large'',
      cjc_volume_size_in_gb = 30,
      cjc_sagemaker_session = PipelineSession (arg_region a) default_bucket\<rparr>"

definition data_quality_check_config ::
  "environment \<Rightarrow> get_pipeline_args \<Rightarrow> string \<Rightarrow> string \<Rightarrow> data_quality_check_config" where
  "data_quality_check_config env a role default_bucket =
     \<lparr>dq_baseline_dataset =
        properties (ps_name (step_process env a role default_bucket))
          [''ProcessingOutputConfig'', ''Outputs'', ''train_no_header'', ''S3Output'', ''S3Uri''],
      dq_dataset_format = \<lparr>csv_header = False, csv_output_columns_position = Some ''START''\<rparr>,
      dq_output_s3_uri =
        Join ''/'' [Str ''s3:/'', Str default_bucket, Str (arg_base_job_prefix a),
          ExecutionVariable PIPELINE_EXECUTION_ID, Str ''dataqualitycheckstep'']\<rparr>"

definition data_quality_check_step ::
  "environment \<Rightarrow> get_pipeline_args \<Rightarrow> string \<Rightarrow> string \<Rightarrow> quality_check_step" where
  "data_quality_check_step env a role default_bucket =
     \<lparr>qcs_name = ''DataQualityCheckStep'',
      qcs_skip_check = Param skip_check_data_quality,
      qcs_register_new_baseline = Param register_new_baseline_data_quality,
      qcs_quality_check_config =
        DataQualityCheckConfig (data_quality_check_config env a role default_bucket),
      qcs_check_job_config = check_job_config a role default_bucket,
      qcs_supplied_baseline_statistics = Param supplied_baseline_statistics_data_quality,
      qcs_supplied_baseline_constraints = Param supplied_baseline_constraints_data_quality,
      qcs_model_package_group_name = arg_model_package_group_name a\<rparr>"

definition data_bias_analysis_cfg_output_path :: "get_pipeline_args \<Rightarrow> string \<Rightarrow> string" where
  "data_bias_analysis_cfg_output_path a default_bucket =
     ''s3://'' @ default_bucket @ ''/'' @ arg_base_job_prefix a @ ''/databiascheckstep/analysis_cfg''"

definition data_bias_data_config ::
  "environment \<Rightarrow> get_pipeline_args \<Rightarrow> string \<Rightarrow> string \<Rightarrow> data_config" where
  "data_bias_data_config env a role default_bucket =
     \<lparr>dc_s3_data_input_path =
        properties (ps_name (step_process env a role default_bucket))
          [''ProcessingOutputConfig'', ''Outputs'', ''train_no_header'', ''S3Output'', ''S3Uri''],
      dc_s3_output_path =
        Join ''/'' [Str ''s3:/'', Str default_bucket, Str (arg_base_job_prefix a),
          ExecutionVariable PIPELINE_EXECUTION_ID, Str ''databiascheckstep''],
      dc_s3_analysis_config_output_path = data_bias_analysis_cfg_output_path a default_bucket,
      dc_label = ''action_taken'',
      dc_headers =
        [''action_taken'', ''conforming_loan_limit'', ''derived_sex'', ''preapproval'',
         ''loan_type'', ''loan_purpose'', ''lien_status'', ''reverse_mortgage'',
         ''open-end_line_of_credit'', ''business_or_commercial_purpose'', ''loan_amount'',
         ''loan_to_value_ratio'', ''loan_term'', ''negative_amortization'',
         ''interest_only_payment'', ''balloon_payment'', ''other_nonamortizing_features'',
         ''property_value'', ''construction_method'', ''occupancy_type'', ''total_units'',
         ''income'', ''debt_to_income_ratio'', ''derived_age_above_62'',
         ''derived_age_below_25'', ''derived_race_revisited'', ''if_co-applicant''],
      dc_dataset_type = ''text/csv''\<rparr>"

definition data_bias_config :: bias_config where
  "data_bias_config =
     \<lparr>bc_label_values_or_threshold = [1],
      bc_facet_name =
        [''derived_sex'', ''derived_age_above_62'', ''derived_age_below_25'',
         ''derived_race_revisited'', ''if_co-applicant'']\<rparr>"

definition data_bias_check_config ::
  "environment \<Rightarrow> get_pipeline_args \<Rightarrow> string \<Rightarrow> string \<Rightarrow> clarify_check_config" where
  "data_bias_check_config env a role default_bucket =
     DataBiasCheckConfig (data_bias_data_config env a role default_bucket) data_bias_config"

definition data_bias_check_step ::
  "environment \<Rightarrow> get_pipeline_args \<Rightarrow> string \<Rightarrow> string \<Rightarrow> clarify_check_step" where
  "data_bias_check_step env a role default_bucket =
     \<lparr>ccs_name = ''DataBiasCheckStep'',
      ccs_clarify_check_config = data_bias_check_config env a role default_bucket,
      ccs_check_job_config = check_job_config a role default_bucket,
      ccs_skip_check = Param skip_check_data_bias,
      ccs_register_new_baseline = Param register_new_baseline_data_bias,
      ccs_supplied_baseline_constraints = None,
      ccs_model_package_group_name = arg_model_package_group_name a\<rparr>"

definition auto_ml :: "get_pipeline_args \<Rightarrow> string \<Rightarrow> string \<Rightarrow> auto_ml" where
  "auto_ml a role default_bucket =
     \<lparr>aml_role = role,
      aml_target_attribute_name = ''action_taken'',
      aml_output_kms_key = None,
      aml_output_path = ''s3://'' @ default_bucket @ ''/'' @ arg_base_job_prefix a @ ''/automlstep'',
      aml_base_job_name = arg_base_job_prefix a @ ''/automl'',
      aml_compression_type = None,
      aml_sagemaker_session = PipelineSession (arg_region a) default_bucket,
      aml_volume_kms_key = None,
      aml_encrypt_inter_container_traffic = None,
      aml_vpc_config = None,
      aml_problem_type = ''BinaryClassification'',
      aml_max_candidates = 1,
      aml_max_runtime_per_training_job_in_seconds = 180,
      aml_total_job_runtime_in_seconds = 540,
      aml_job_objective = [(''MetricName'', ''F1'')],
      aml_generate_candidate_definitions_only = False,
      aml_tags = None,
      aml_content_type = ''text/csv;header=present'',
      aml_s3_data_type = ''S3Prefix'',
      aml_feature_specification_s3_uri = None,
      aml_validation_fraction = 2 / 10,
      aml_mode = ''ENSEMBLING'',
      aml_auto_generate_endpoint_name = ''False'',
      aml_endpoint_name = ''hmda_endpoint'',
      aml_sample_weight_attribute_name = None\<rparr>"

definition input_training ::
  "environment \<Rightarrow> get_pipeline_args \<Rightarrow> string \<Rightarrow> string \<Rightarrow> auto_ml_input" where
  "input_training env a role default_bucket =
     \<lparr>ami_inputs =
        properties (ps_name (step_process env a role default_bucket))
          [''ProcessingOutputConfig'', ''Outputs'', ''train'', ''S3Output'', ''S3Uri''],
      ami_target_attribute_name = ''action_taken'',
      ami_compression = None,
      ami_channel_type = ''training'',
      ami_content_type = ''text/csv;header=present'',
      ami_s3_data_type = ''S3Prefix'',
      ami_sample_weight_attribute_name = None\<rparr>"

definition step_automl_args ::
  "environment \<Rightarrow> get_pipeline_args \<Rightarrow> string \<Rightarrow> string \<Rightarrow> auto_ml_fit" where
  "step_automl_args env a role default_bucket =
     \<lparr>fit_auto_ml = auto_ml a role default_bucket,
      fit_inputs = [input_training env a role default_bucket],
      fit_wait = True,
      fit_logs = True,
      fit_job_name = arg_base_job_prefix a @ ''/automl-fit''\<rparr>"

definition step_automl ::
  "environment \<Rightarrow> get_pipeline_args \<Rightarrow> string \<Rightarrow> string \<Rightarrow> auto_ml_step" where
  "step_automl env a role default_bucket =
     \<lparr>ams_name = ''AutoMLStep'',
      ams_step_args = step_automl_args env a role default_bucket,
      ams_depends_on = [''DataQualityCheckStep'', ''DataBiasCheckStep'']\<rparr>"

definition best_auto_ml_model ::
  "environment \<Rightarrow> get_pipeline_args \<Rightarrow> string \<Rightarrow> string \<Rightarrow> best_model" where
  "best_auto_ml_model env a role default_bucket =
     \<lparr>bm_step_name = ams_name (step_automl env a role default_bucket),
      bm_sagemaker_session = PipelineSession (arg_region a) default_bucket,
      bm_role = role\<rparr>"

definition step_create_model ::
  "environment \<Rightarrow> get_pipeline_args \<Rightarrow> string \<Rightarrow> string \<Rightarrow> model_step" where
  "step_create_model env a role default_bucket =
     \<lparr>mst_name = ''HMDACreateModel'',
      mst_step_args =
        Create \<lparr>mcr_model = best_auto_ml_model env a role default_bucket,
                mcr_instance_type = ''ml.m5.xlarge''\<rparr>\<rparr>"

definition transformer ::
  "environment \<Rightarrow> get_pipeline_args \<Rightarrow> string \<Rightarrow> string \<Rightarrow> transformer" where
  "transformer env a role default_bucket =
     \<lparr>tr_model_name =
        properties (mst_name (step_create_model env a role default_bucket)) [''ModelName''],
      tr_instance_type = ''ml.m5.xlarge'',
      tr_instance_count = 1,
      tr_accept = ''text/csv'',
      tr_assemble_with = ''Line'',
      tr_output_path = ''s3://'' @ default_bucket @ ''/HMDATransform'',
      tr_sagemaker_session = PipelineSession (arg_region a) default_bucket\<rparr>"

definition transform_inputs ::
  "environment \<Rightarrow> get_pipeline_args \<Rightarrow> string \<Rightarrow> string \<Rightarrow> transform_input" where
  "transform_inputs env a role default_bucket =
     \<lparr>ti_data =
        properties (ps_name (step_process env a role default_bucket))
          [''ProcessingOutputConfig'', ''Outputs'', ''test'', ''S3Output'', ''S3Uri'']\<rparr>"

definition step_transform ::
  "environment \<Rightarrow> get_pipeline_args \<Rightarrow> string \<Rightarrow> string \<Rightarrow> transform_step" where
  "step_transform env a role default_bucket =
     \<lparr>tst_name = ''HMDATransform'',
      tst_step_args =
        \<lparr>tf_transformer = transformer env a role default_bucket,
         tf_data = ti_data (transform_inputs env a role default_bucket),
         tf_input_filter = ''$[1:]'',
         tf_join_source = ''Input'',
         tf_output_filter = ''$[0,-1]'',
         tf_content_type = ''text/csv'',
         tf_split_type = ''Line''\<rparr>\<rparr>"

definition model_quality_check_config ::
  "environment \<Rightarrow> get_pipeline_args \<Rightarrow> string \<Rightarrow> string \<Rightarrow> model_quality_check_config" where
  "model_quality_check_config env a role default_bucket =
     \<lparr>mq_baseline_dataset =
        properties (tst_name (step_transform env a role default_bucket))
          [''TransformOutput'', ''S3OutputPath''],
      mq_dataset_format = \<lparr>csv_header = False, csv_output_columns_position = None\<rparr>,
      mq_output_s3_uri =
        Join ''/'' [Str ''s3:/'', Str default_bucket, Str (arg_base_job_prefix a),
          ExecutionVariable PIPELINE_EXECUTION_ID, Str ''modelqualitycheckstep''],
      mq_problem_type = ''BinaryClassification'',
      mq_inference_attribute = ''_c1'',
      mq_ground_truth_attribute = ''_c0''\<rparr>"

definition model_quality_check_step ::
  "environment \<Rightarrow> get_pipeline_args \<Rightarrow> string \<Rightarrow> string \<Rightarrow> quality_check_step" where
  "model_quality_check_step env a role default_bucket =
     \<lparr>qcs_name = ''ModelQualityCheckStep'',
      qcs_skip_check = Param skip_check_model_quality,
      qcs_register_new_baseline = Param register_new_baseline_model_quality,
      qcs_quality_check_config =
        ModelQualityCheckConfig (model_quality_check_config env a role default_bucket),
      qcs_check_job_config = check_job_config a role default_bucket,
      qcs_supplied_baseline_statistics = Param supplied_baseline_statistics_model_quality,
      qcs_supplied_baseline_constraints = Param supplied_baseline_constraints_model_quality,
      qcs_model_package_group_name = arg_model_package_group_name a\<rparr>"

definition model_bias_analysis_cfg_output_path :: "get_pipeline_args \<Rightarrow> string \<Rightarrow> string" where
  "model_bias_analysis_cfg_output_path a default_bucket =
     ''s3://'' @ default_bucket @ ''/'' @ arg_base_job_prefix a @ ''/modelbiascheckstep/analysis_cfg''"

definition model_bias_data_config ::
  "environment \<Rightarrow> get_pipeline_args \<Rightarrow> string \<Rightarrow> string \<Rightarrow> data_config" where
  "model_bias_data_config env a role default_bucket =
     \<lparr>dc_s3_data_input_path =
        properties (ps_name (step_process env a role default_bucket))
          [''ProcessingOutputConfig'', ''Outputs'', ''train_no_header'', ''S3Output'', ''S3Uri''],
      dc_s3_output_path =
        Join ''/'' [Str ''s3:/'', Str default_bucket, Str (arg_base_job_prefix a),
          ExecutionVariable PIPELINE_EXECUTION_ID, Str ''modelbiascheckstep''],
      dc_s3_analysis_config_output_path = model_bias_analysis_cfg_output_path a default_bucket,
      dc_label = ''action_taken'',
      dc_headers =
        [''action_taken'', ''conforming_loan_limit'', ''derived_sex'', ''preapproval'',
         ''loan_type'', ''loan_purpose'', ''lien_status'', ''reverse_mortgage'',
         ''open-end_line_of_credit'', ''business_or_commercial_purpose'', ''loan_amount'',
         ''loan_to_value_ratio'', ''loan_term'', ''negative_amortization'',
         ''interest_only_payment'', ''balloon_payment'', ''other_nonamortizing_features'',
         ''property_value'', ''construction_method'', ''occupancy_type'', ''total_units'',
         ''income'', ''debt_to_income_ratio'', ''derived_age_above_62'',
         ''derived_age_below_25'', ''derived_race_revisited'', ''if_co-applicant''],
      dc_dataset_type = ''text/csv''\<rparr>"

definition model_config ::
  "environment \<Rightarrow> get_pipeline_args \<Rightarrow> string \<Rightarrow> string \<Rightarrow> model_config" where
  "model_config env a role default_bucket =
     \<lparr>mc_model_name =
        properties (mst_name (step_create_model env a role default_bucket)) [''ModelName''],
      mc_instance_count = 1,
      mc_instance_type = ''ml.m5.large''\<rparr>"

definition model_bias_config :: bias_config where
  "model_bias_config =
     \<lparr>bc_label_values_or_threshold = [1],
      bc_facet_name =
        [''derived_sex'', ''derived_age_above_62'', ''derived_age_below_25'',
         ''derived_race_revisited'', ''if_co-applicant'']\<rparr>"

definition model_bias_check_config ::
  "environment \<Rightarrow> get_pipeline_args \<Rightarrow> string \<Rightarrow> string \<Rightarrow> clarify_check_config" where
  "model_bias_check_config env a role default_bucket =
     ModelBiasCheckConfig (model_bias_data_config env a role default_bucket) model_bias_config
       (model_config env a role default_bucket) ModelPredictedLabelConfig"

definition model_bias_check_step ::
  "environment \<Rightarrow> get_pipeline_args \<Rightarrow> string \<Rightarrow> string \<Rightarrow> clarify_check_step" where
  "model_bias_check_step env a role default_bucket =
     \<lparr>ccs_name = ''ModelBiasCheckStep'',
      ccs_clarify_check_config = model_bias_check_config env a role default_bucket,
      ccs_check_job_config = check_job_config a role default_bucket,
      ccs_skip_check = Param skip_check_model_bias,
      ccs_register_new_baseline = Param register_new_baseline_model_bias,
      ccs_supplied_baseline_constraints = Some (Param supplied_baseline_constraints_model_bias),
      ccs_model_package_group_name = arg_model_package_group_name a\<rparr>"

definition model_explainability_analysis_cfg_output_path ::
  "get_pipeline_args \<Rightarrow> string \<Rightarrow> string" where
  \<comment> \<open>\<open>"s3://{}/{}/{}/{}".format(...)\<close>\<close>
  "model_explainability_analysis_cfg_output_path a default_bucket =
     ''s3://'' @ default_bucket @ ''/'' @ arg_base_job_prefix a @ ''/''
       @ ''modelexplainabilitycheckstep'' @ ''/'' @ ''analysis_cfg''"

definition model_explainability_data_config ::
  "environment \<Rightarrow> get_pipeline_args \<Rightarrow> string \<Rightarrow> string \<Rightarrow> data_config" where
  "model_explainability_data_config env a role default_bucket =
     \<lparr>dc_s3_data_input_path =
        properties (ps_name (step_process env a role default_bucket))
          [''ProcessingOutputConfig'', ''Outputs'', ''train_no_header'', ''S3Output'', ''S3Uri''],
      dc_s3_output_path =
        Join ''/'' [Str ''s3:/'', Str default_bucket, Str (arg_base_job_prefix a),
          ExecutionVariable PIPELINE_EXECUTION_ID, Str ''modelexplainabilitycheckstep''],
      dc_s3_analysis_config_output_path =
        model_explainability_analysis_cfg_output_path a default_bucket,
      dc_label = ''action_taken'',
      dc_headers =
        [''action_taken'', ''conforming_loan_limit'', ''derived_sex'', ''preapproval'',
         ''loan_type'', ''loan_purpose'', ''lien_status'', ''reverse_mortgage'',
         ''open-end_line_of_credit'', ''business_or_commercial_purpose'', ''loan_amount'',
         ''loan_to_value_ratio'', ''loan_term'', ''negative_amortization'',
         ''interest_only_payment'', ''balloon_payment'', ''other_nonamortizing_features'',
         ''property_value'', ''construction_method'', ''occupancy_type'', ''total_units'',
         ''income'', ''debt_to_income_ratio'', ''derived_age_above_62'',
         ''derived_age_below_25'', ''derived_race_revisited'', ''if_co-applicant''],
      dc_dataset_type = ''text/csv''\<rparr>"

definition shap_config :: shap_config where
  "shap_config = \<lparr>shap_seed = 123, shap_num_samples = 26, shap_num_clusters = 1\<rparr>"

definition model_explainability_check_config ::
  "environment \<Rightarrow> get_pipeline_args \<Rightarrow> string \<Rightarrow> string \<Rightarrow> clarify_check_config" where
  "model_explainability_check_config env a role default_bucket =
     ModelExplainabilityCheckConfig (model_explainability_data_config env a role default_bucket)
       (model_config env a role default_bucket) shap_config"

definition model_explainability_check_step ::
  "environment \<Rightarrow> get_pipeline_args \<Rightarrow> string \<Rightarrow> string \<Rightarrow> clarify_check_step" where
  "model_explainability_check_step env a role default_bucket =
     \<lparr>ccs_name = ''ModelExplainabilityCheckStep'',
      ccs_clarify_check_config = model_explainability_check_config env a role default_bucket,
      ccs_check_job_config = check_job_config a role default_bucket,
      ccs_skip_check = Param skip_check_model_explainability,
      ccs_register_new_baseline = Param register_new_baseline_model_explainability,
      ccs_supplied_baseline_constraints =
        Some (Param supplied_baseline_constraints_model_explainability),
      ccs_model_package_group_name = arg_model_package_group_name a\<rparr>"

definition sklearn_processor_evaluate ::
  "get_pipeline_args \<Rightarrow> string \<Rightarrow> string \<Rightarrow> sklearn_processor" where
  "sklearn_processor_evaluate a role default_bucket =
     \<lparr>skp_framework_version = ''1.2-1'',
      skp_instance_type = arg_processing_instance_type a,
      skp_instance_count = Param processing_instance_count,
      skp_base_job_name = arg_base_job_prefix a @ ''/sklearn-hmda-evaluate'',
      skp_sagemaker_session = PipelineSession (arg_region a) default_bucket,
      skp_role = role\<rparr>"

definition step_eval_args ::
  "environment \<Rightarrow> get_pipeline_args \<Rightarrow> string \<Rightarrow> string \<Rightarrow> processor_run" where
  "step_eval_args env a role default_bucket =
     \<lparr>run_processor = sklearn_processor_evaluate a role default_bucket,
      run_inputs =
        Some [\<lparr>pi_source =
                 properties (tst_name (step_transform env a role default_bucket))
                   [''TransformOutput'', ''S3OutputPath''],
               pi_destination = ''/opt/ml/processing/input/ground_truth_with_predictions''\<rparr>],
      run_outputs =
        [\<lparr>po_output_name = ''evaluation'', po_source = ''/opt/ml/processing/evaluation''\<rparr>],
      run_code = os_path_join (BASE_DIR env) ''evaluate.py'',
      run_arguments = None\<rparr>"

definition evaluation_report :: property_file where
  "evaluation_report =
     \<lparr>pf_name = ''HMDAEvaluationReport'', pf_output_name = ''evaluation'',
      pf_path = ''evaluation.json''\<rparr>"

definition step_eval ::
  "environment \<Rightarrow> get_pipeline_args \<Rightarrow> string \<Rightarrow> string \<Rightarrow> processing_step" where
  "step_eval env a role default_bucket =
     \<lparr>ps_name = ''EvaluateHMDAModel'',
      ps_step_args = step_eval_args env a role default_bucket,
      ps_property_files = Some [evaluation_report]\<rparr>"

definition MetricsSource :: "pipeline_value \<Rightarrow> string \<Rightarrow> metrics_source" where
  "MetricsSource s3_uri content_type = \<lparr>ms_s3_uri = s3_uri, ms_content_type = content_type\<rparr>"

definition FileSource :: "analysis_config_uri \<Rightarrow> string \<Rightarrow> file_source" where
  "FileSource s3_uri content_type = \<lparr>fs_s3_uri = s3_uri, fs_content_type = content_type\<rparr>"

definition model_metrics ::
  "environment \<Rightarrow> get_pipeline_args \<Rightarrow> string \<Rightarrow> string \<Rightarrow> model_metrics" where
  "model_metrics env a role default_bucket =
     \<lparr>mm_model_data_statistics =
        MetricsSource
          (properties (qcs_name (data_quality_check_step env a role default_bucket))
             [''CalculatedBaselineStatistics''])
          ''application/json'',
      mm_model_data_constraints =
        MetricsSource
          (properties (qcs_name (data_quality_check_step env a role default_bucket))
             [''CalculatedBaselineConstraints''])
          ''application/json'',
      mm_bias_pre_training =
        MetricsSource
          (properties (ccs_name (data_bias_check_step env a role default_bucket))
             [''CalculatedBaselineConstraints''])
          ''application/json'',
      mm_model_statistics =
        MetricsSource
          (properties (qcs_name (model_quality_check_step env a role default_bucket))
             [''CalculatedBaselineStatistics''])
          ''application/json'',
      mm_model_constraints =
        MetricsSource
          (properties (qcs_name (model_quality_check_step env a role default_bucket))
             [''CalculatedBaselineConstraints''])
          ''application/json'',
      mm_bias_post_training =
        MetricsSource
          (properties (ccs_name (model_bias_check_step env a role default_bucket))
             [''CalculatedBaselineConstraints''])
          ''application/json'',
      mm_bias =
        MetricsSource
          (properties (ccs_name (model_bias_check_step env a role default_bucket))
             [''CalculatedBaselineConstraints''])
          ''application/json'',
      mm_explainability =
        MetricsSource
          (properties (ccs_name (model_explainability_check_step env a role default_bucket))
             [''CalculatedBaselineConstraints''])
          ''application/json''\<rparr>"

definition drift_check_baselines ::
  "environment \<Rightarrow> get_pipeline_args \<Rightarrow> string \<Rightarrow> string \<Rightarrow> drift_check_baselines" where
  "drift_check_baselines env a role default_bucket =
     \<lparr>dcb_model_data_statistics =
        MetricsSource
          (properties (qcs_name (data_quality_check_step env a role default_bucket))
             [''BaselineUsedForDriftCheckStatistics''])
          ''application/json'',
      dcb_model_data_constraints =
        MetricsSource
          (properties (qcs_name (data_quality_check_step env a role default_bucket))
             [''BaselineUsedForDriftCheckConstraints''])
          ''application/json'',
      dcb_bias_pre_training_constraints =
        MetricsSource
          (properties (ccs_name (data_bias_check_step env a role default_bucket))
             [''BaselineUsedForDriftCheckConstraints''])
          ''application/json'',
      dcb_bias_config_file =
        FileSource
          (monitoring_analysis_config_uri (model_bias_check_config env a role default_bucket))
          ''application/json'',
      dcb_model_statistics =
        MetricsSource
          (properties (qcs_name (model_quality_check_step env a role default_bucket))
             [''BaselineUsedForDriftCheckStatistics''])
          ''application/json'',
      dcb_model_constraints =
        MetricsSource
          (properties (qcs_name (model_quality_check_step env a role default_bucket))
             [''BaselineUsedForDriftCheckConstraints''])
          ''application/json'',
      dcb_bias_post_training_constraints =
        MetricsSource
          (properties (ccs_name (model_bias_check_step env a role default_bucket))
             [''BaselineUsedForDriftCheckConstraints''])
          ''application/json'',
      dcb_explainability_constraints =
        MetricsSource
          (properties (ccs_name (model_explainability_check_step env a role default_bucket))
             [''BaselineUsedForDriftCheckConstraints''])
          ''application/json'',
      dcb_explainability_config_file =
        FileSource
          (monitoring_analysis_config_uri
             (model_explainability_check_config env a role default_bucket))
          ''application/json''\<rparr>"

definition step_register ::
  "environment \<Rightarrow> get_pipeline_args \<Rightarrow> string \<Rightarrow> string \<Rightarrow> model_step" where
  "step_register env a role default_bucket =
     \<lparr>mst_name = ''RegisterHMDAModel'',
      mst_step_args =
        Register
          \<lparr>reg_model = best_auto_ml_model env a role default_bucket,
           reg_content_types = [''text/csv''],
           reg_response_types = [''text/csv''],
           reg_inference_instances = [''ml.m5.xlarge''],
           reg_transform_instances = [''ml.m5.xlarge''],
           reg_model_package_group_name = arg_model_package_group_name a,
           reg_approval_status = Param model_approval_status,
           reg_model_metrics = model_metrics env a role default_bucket,
           reg_drift_check_baselines = drift_check_baselines env a role default_bucket\<rparr>\<rparr>"

definition cond_lte ::
  "environment \<Rightarrow> get_pipeline_args \<Rightarrow> string \<Rightarrow> string \<Rightarrow> condition" where
  "cond_lte env a role default_bucket =
     ConditionGreaterThanOrEqualTo
       (JsonGet (ps_name (step_eval env a role default_bucket)) evaluation_report
          ''classification_metrics.weighted_f1.value'')
       (Number (5 / 10))"

definition step_cond ::
  "environment \<Rightarrow> get_pipeline_args \<Rightarrow> string \<Rightarrow> string \<Rightarrow> step" where
  "step_cond env a role default_bucket =
     ConditionStep ''CheckF1HMDAEvaluation''
       [cond_lte env a role default_bucket]
       [ModelStep (step_register env a role default_bucket)]
       []"

definition pipeline ::
  "environment \<Rightarrow> get_pipeline_args \<Rightarrow> string \<Rightarrow> string \<Rightarrow> pipeline" where
  "pipeline env a role default_bucket =
     \<lparr>pl_name = arg_pipeline_name a,
      pl_parameters =
        [arg_processing_instance_type a,
         Param processing_instance_count,
         arg_training_instance_type a,
         Param model_approval_status,
         Param (input_data default_bucket),
         Param skip_check_data_quality,
         Param register_new_baseline_data_quality,
         Param supplied_baseline_statistics_data_quality,
         Param supplied_baseline_constraints_data_quality,
         Param skip_check_data_bias,
         Param register_new_baseline_data_bias,
         Param supplied_baseline_constraints_data_bias,
         Param skip_check_model_quality,
         Param register_new_baseline_model_quality,
         Param supplied_baseline_statistics_model_quality,
         Param supplied_baseline_constraints_model_quality,
         Param skip_check_model_bias,
         Param register_new_baseline_model_bias,
         Param supplied_baseline_constraints_model_bias,
         Param skip_check_model_explainability,
         Param register_new_baseline_model_explainability,
         Param supplied_baseline_constraints_model_explainability],
      pl_steps =
        [ProcessingStep (step_process env a role default_bucket),
         QualityCheckStep (data_quality_check_step env a role default_bucket),
         ClarifyCheckStep (data_bias_check_step env a role default_bucket),
         AutoMLStep (step_automl env a role default_bucket),
         ModelStep (step_create_model env a role default_bucket),
         TransformStep (step_transform env a role default_bucket),
         QualityCheckStep (model_quality_check_step env a role default_bucket),
         ClarifyCheckStep (model_bias_check_step env a role default_bucket),
         ClarifyCheckStep (model_explainability_check_step env a role default_bucket),
         ProcessingStep (step_eval env a role default_bucket),
         step_cond env a role default_bucket],
      pl_sagemaker_session = PipelineSession (arg_region a) default_bucket\<rparr>"

definition get_pipeline :: "environment \<Rightarrow> get_pipeline_args \<Rightarrow> error + pipeline" where
  \<comment> \<open>the exceptions of the source's calls in their order: the session, its bucket, the
      role, the pipeline session, and then the constructors and calls that build the steps\<close>
  "get_pipeline env a =
     (case get_session env (arg_region a) (arg_default_bucket a) of
        Inl e \<Rightarrow> Inl e
      | Inr sagemaker_session \<Rightarrow>
          (case session_default_bucket env sagemaker_session of
             Inl e \<Rightarrow> Inl e
           | Inr default_bucket \<Rightarrow>
               (case (case arg_role a of
                        None \<Rightarrow> get_execution_role env sagemaker_session
                      | Some role \<Rightarrow> Inr role) of
                  Inl e \<Rightarrow> Inl e
                | Inr role \<Rightarrow>
                    (case get_pipeline_session env (arg_region a) default_bucket of
                       Inl e \<Rightarrow> Inl e
                     | Inr pipeline_session \<Rightarrow>
                         (case sdk_rejects env (pl_steps (pipeline env a role default_bucket)) of
                            Some e \<Rightarrow> Inl e
                          | None \<Rightarrow> Inr (pipeline env a role default_bucket))))))"

subsection \<open>Reading a pipeline\<close>

fun step_kind :: "step \<Rightarrow> string" where
  \<comment> \<open>the class of the SDK that a step is an instance of\<close>
  "step_kind (ProcessingStep s) = ''ProcessingStep''"
| "step_kind (QualityCheckStep s) = ''QualityCheckStep''"
| "step_kind (ClarifyCheckStep s) = ''ClarifyCheckStep''"
| "step_kind (AutoMLStep s) = ''AutoMLStep''"
| "step_kind (ModelStep s) = ''ModelStep''"
| "step_kind (TransformStep s) = ''TransformStep''"
| "step_kind (ConditionStep name conditions if_steps else_steps) = ''ConditionStep''"

fun nested_steps :: "step \<Rightarrow> step list" where
  \<comment> \<open>a step together with the steps of its branches\<close>
  "nested_steps (ConditionStep name conditions if_steps else_steps) =
     ConditionStep name conditions if_steps else_steps
       # concat (map nested_steps if_steps) @ concat (map nested_steps else_steps)"
| "nested_steps s = [s]"

fun step_roles :: "step \<Rightarrow> string list" where
  \<comment> \<open>the \<open>role\<close> arguments inside a step\<close>
  "step_roles (ProcessingStep s) = [skp_role (run_processor (ps_step_args s))]"
| "step_roles (QualityCheckStep s) = [cjc_role (qcs_check_job_config s)]"
| "step_roles (ClarifyCheckStep s) = [cjc_role (ccs_check_job_config s)]"
| "step_roles (AutoMLStep s) = [aml_role (fit_auto_ml (ams_step_args s))]"
| "step_roles (ModelStep s) =
     (case mst_step_args s of
        Create c \<Rightarrow> [bm_role (mcr_model c)]
      | Register r \<Rightarrow> [bm_role (reg_model r)])"
| "step_roles (TransformStep s) = []"
| "step_roles (ConditionStep name conditions if_steps else_steps) =
     concat (map step_roles if_steps) @ concat (map step_roles else_steps)"

fun step_sessions :: "step \<Rightarrow> pipeline_session list" where
  \<comment> \<open>the \<open>sagemaker_session\<close> arguments inside a step\<close>
  "step_sessions (ProcessingStep s) = [skp_sagemaker_session (run_processor (ps_step_args s))]"
| "step_sessions (QualityCheckStep s) = [cjc_sagemaker_session (qcs_check_job_config s)]"
| "step_sessions (ClarifyCheckStep s) = [cjc_sagemaker_session (ccs_check_job_config s)]"
| "step_sessions (AutoMLStep s) = [aml_sagemaker_session (fit_auto_ml (ams_step_args s))]"
| "step_sessions (ModelStep s) =
     (case mst_step_args s of
        Create c \<Rightarrow> [bm_sagemaker_session (mcr_model c)]
      | Register r \<Rightarrow> [bm_sagemaker_session (reg_model r)])"
| "step_sessions (TransformStep s) = [tr_sagemaker_session (tf_transformer (tst_step_args s))]"
| "step_sessions (ConditionStep name conditions if_steps else_steps) =
     concat (map step_sessions if_steps) @ concat (map step_sessions else_steps)"

definition find_step :: "pipeline \<Rightarrow> string \<Rightarrow> step option" where
  \<comment> \<open>the first step of the pipeline's list with that name\<close>
  "find_step p name = find (\<lambda>s. step_name s = name) (pl_steps p)"

fun value_steps :: "pipeline_value \<Rightarrow> string list" where
  \<comment> \<open>the steps whose properties a value refers to\<close>
  "value_steps (Property name path) = [name]"
| "value_steps (Join on vs) = concat (map value_steps vs)"
| "value_steps (Str s) = []"
| "value_steps (IntV i) = []"
| "value_steps (Param q) = []"
| "value_steps (ExecutionVariable v) = []"

definition auto_ml_step_references :: "auto_ml_step \<Rightarrow> string list" where
  \<comment> \<open>the steps that the data of an AutoML step refers to\<close>
  "auto_ml_step_references s =
     concat (map (\<lambda>i. value_steps (ami_inputs i)) (fit_inputs (ams_step_args s)))"

fun is_literal :: "pipeline_value \<Rightarrow> bool" where
  "is_literal (Str s) = True"
| "is_literal (IntV i) = True"
| "is_literal v = False"

definition processing_step_inputs :: "processing_step \<Rightarrow> pipeline_value list" where
  \<comment> \<open>what a processing job is given that is not a literal of the source: the sources of
      its \<open>inputs\<close> and the parameters and references among its \<open>arguments\<close>\<close>
  "processing_step_inputs s =
     map pi_source (case run_inputs (ps_step_args s) of None \<Rightarrow> [] | Some inputs \<Rightarrow> inputs)
     @ filter (\<lambda>v. \<not> is_literal v)
         (case run_arguments (ps_step_args s) of None \<Rightarrow> [] | Some arguments \<Rightarrow> arguments)"

subsection \<open>What the platform does with a condition step\<close>

text \<open>
  A condition step reads the operands of its conditions when the pipeline runs, a
  \<open>JsonGet\<close> from the property file of the step it names, and runs \<open>if_steps\<close> when every
  condition holds and \<open>else_steps\<close> otherwise; when an operand cannot be read the step
  fails and neither branch runs. The threshold of the source, the float \<open>0.5\<close>, is the
  rational one half; a report value is the rational that its float denotes.
\<close>

type_synonym reports = "string \<Rightarrow> property_file \<Rightarrow> string \<Rightarrow> rat option"

fun operand_value :: "reports \<Rightarrow> operand \<Rightarrow> rat option" where
  "operand_value rd (JsonGet name file path) = rd name file path"
| "operand_value rd (Number x) = Some x"

fun condition_holds :: "reports \<Rightarrow> condition \<Rightarrow> bool option" where
  "condition_holds rd (ConditionGreaterThanOrEqualTo left right) =
     (case operand_value rd left of
        None \<Rightarrow> None
      | Some x \<Rightarrow>
          (case operand_value rd right of
             None \<Rightarrow> None
           | Some y \<Rightarrow> Some (y \<le> x)))"

fun conditions_hold :: "reports \<Rightarrow> condition list \<Rightarrow> bool option" where
  "conditions_hold rd [] = Some True"
| "conditions_hold rd (c # cs) =
     (case condition_holds rd c of
        None \<Rightarrow> None
      | Some h \<Rightarrow>
          (case conditions_hold rd cs of
             None \<Rightarrow> None
           | Some hs \<Rightarrow> Some (h \<and> hs)))"

fun selected_branch :: "reports \<Rightarrow> step \<Rightarrow> step list option" where
  "selected_branch rd (ConditionStep name conditions if_steps else_steps) =
     (case conditions_hold rd conditions of
        None \<Rightarrow> None
      | Some h \<Rightarrow> Some (if h then if_steps else else_steps))"
| "selected_branch rd s = Some []"

subsection \<open>What the platform does with the filters of a batch transform\<close>

text \<open>
  The filters are JSONPath expressions over the columns of a record. The two forms the
  source uses are a slice \<open>$[lo:hi]\<close> and a list of indices \<open>$[i,j]\<close>, a negative
  index counting from the end. The input filter selects what the model receives; with
  \<open>join_source\<close> \<open>Input\<close> the prediction is appended to the input record; the output
  filter selects what is written from the joined record.
\<close>

datatype selector = Slice "int option" "int option" | Indices "int list"

definition digit :: "char \<Rightarrow> nat option" where
  \<comment> \<open>the value of a decimal digit: its position among the ten digits\<close>
  "digit c =
     (if c \<in> set ''0123456789''
      then Some (length (takeWhile (\<lambda>d. d \<noteq> c) ''0123456789''))
      else None)"

fun parse_digits :: "nat \<Rightarrow> string \<Rightarrow> nat option" where
  "parse_digits acc [] = Some acc"
| "parse_digits acc (c # cs) =
     (case digit c of None \<Rightarrow> None | Some d \<Rightarrow> parse_digits (10 * acc + d) cs)"

fun parse_int :: "string \<Rightarrow> int option" where
  "parse_int [] = None"
| "parse_int (c # cs) =
     (if c = CHR ''-''
      then (if cs = [] then None else map_option (\<lambda>n. - int n) (parse_digits 0 cs))
      else map_option int (parse_digits 0 (c # cs)))"

fun split_on :: "char \<Rightarrow> string \<Rightarrow> string list" where
  "split_on sep [] = [[]]"
| "split_on sep (c # cs) =
     (if c = sep then [] # split_on sep cs
      else (case split_on sep cs of
              [] \<Rightarrow> [[c]]
            | w # ws \<Rightarrow> (c # w) # ws))"

fun parse_bound :: "string \<Rightarrow> int option option" where
  "parse_bound [] = Some None"
| "parse_bound s = (case parse_int s of None \<Rightarrow> None | Some i \<Rightarrow> Some (Some i))"

fun parse_all :: "string list \<Rightarrow> int list option" where
  "parse_all [] = Some []"
| "parse_all (w # ws) =
     (case parse_int w of
        None \<Rightarrow> None
      | Some i \<Rightarrow> (case parse_all ws of None \<Rightarrow> None | Some is \<Rightarrow> Some (i # is)))"

definition parse_selector :: "string \<Rightarrow> selector option" where
  "parse_selector body =
     (if CHR '':'' \<in> set body
      then (case split_on CHR '':'' body of
              [lo, hi] \<Rightarrow>
                (case parse_bound lo of
                   None \<Rightarrow> None
                 | Some l \<Rightarrow>
                     (case parse_bound hi of None \<Rightarrow> None | Some h \<Rightarrow> Some (Slice l h)))
            | _ \<Rightarrow> None)
      else map_option Indices (parse_all (split_on CHR '','' body)))"

definition parse_filter :: "string \<Rightarrow> selector option" where
  "parse_filter s =
     (if s = ''$'' then Some (Slice None None)
      else if 3 \<le> length s \<and> take 2 s = ''$['' \<and> last s = CHR '']''
      then parse_selector (butlast (drop 2 s))
      else None)"

definition clamp_index :: "nat \<Rightarrow> int \<Rightarrow> nat" where
  "clamp_index n i = (if i < 0 then nat (int n + i) else min (nat i) n)"

definition element_at :: "'a list \<Rightarrow> int \<Rightarrow> 'a list" where
  \<comment> \<open>the element at an index, and nothing when the index is out of range\<close>
  "element_at xs i =
     (let j = (if i < 0 then int (length xs) + i else i)
      in if 0 \<le> j \<and> j < int (length xs) then [xs ! nat j] else [])"

fun select :: "selector \<Rightarrow> 'a list \<Rightarrow> 'a list" where
  "select (Slice lo hi) xs =
     (let l = (case lo of None \<Rightarrow> 0 | Some i \<Rightarrow> clamp_index (length xs) i);
          h = (case hi of None \<Rightarrow> length xs | Some i \<Rightarrow> clamp_index (length xs) i)
      in take (h - l) (drop l xs))"
| "select (Indices is) xs = concat (map (element_at xs) is)"

definition apply_filter :: "string \<Rightarrow> 'a list \<Rightarrow> 'a list option" where
  "apply_filter f xs = map_option (\<lambda>sel. select sel xs) (parse_filter f)"

definition join_record :: "string \<Rightarrow> 'a list \<Rightarrow> 'a list \<Rightarrow> 'a list" where
  "join_record join_source input prediction =
     (if join_source = ''Input'' then input @ prediction else prediction)"

definition transform_record ::
  "transformer_transform \<Rightarrow> ('a list \<Rightarrow> 'a list) \<Rightarrow> 'a list \<Rightarrow> 'a list option" where
  \<comment> \<open>the line written for one input record, \<open>model\<close> being what the deployed model
      answers to the columns it receives\<close>
  "transform_record t model record =
     (case apply_filter (tf_input_filter t) record of
        None \<Rightarrow> None
      | Some features \<Rightarrow>
          apply_filter (tf_output_filter t)
            (join_record (tf_join_source t) record (model features)))"

definition spec_kept_columns :: "'a list \<Rightarrow> 'a list \<Rightarrow> 'a set" where
  \<comment> \<open>the columns that the specification says the output filter keeps: the predicted
      ones and the last one of the joined record\<close>
  "spec_kept_columns joined prediction = set prediction \<union> {last joined}"

subsection \<open>Reading the metrics bundles and the check configurations\<close>

definition metrics_sources :: "model_metrics \<Rightarrow> metrics_source list" where
  \<comment> \<open>the fields of a \<open>ModelMetrics\<close>, in the order of the source\<close>
  "metrics_sources m =
     [mm_model_data_statistics m, mm_model_data_constraints m, mm_bias_pre_training m,
      mm_model_statistics m, mm_model_constraints m, mm_bias_post_training m, mm_bias m,
      mm_explainability m]"

definition drift_sources :: "drift_check_baselines \<Rightarrow> metrics_source list" where
  \<comment> \<open>the \<open>MetricsSource\<close> fields of a \<open>DriftCheckBaselines\<close>, in the order of the source\<close>
  "drift_sources d =
     [dcb_model_data_statistics d, dcb_model_data_constraints d,
      dcb_bias_pre_training_constraints d, dcb_model_statistics d, dcb_model_constraints d,
      dcb_bias_post_training_constraints d, dcb_explainability_constraints d]"

definition drift_files :: "drift_check_baselines \<Rightarrow> file_source list" where
  \<comment> \<open>the \<open>FileSource\<close> fields of a \<open>DriftCheckBaselines\<close>\<close>
  "drift_files d = [dcb_bias_config_file d, dcb_explainability_config_file d]"

fun step_registrations :: "step \<Rightarrow> model_register list" where
  "step_registrations (ModelStep s) =
     (case mst_step_args s of Create c \<Rightarrow> [] | Register r \<Rightarrow> [r])"
| "step_registrations s = []"

definition registrations :: "pipeline \<Rightarrow> model_register list" where
  \<comment> \<open>the registrations anywhere in the pipeline, the branches of conditions included\<close>
  "registrations p =
     concat (map step_registrations (concat (map nested_steps (pl_steps p))))"

definition bundle_references :: "model_register \<Rightarrow> pipeline_value list" where
  \<comment> \<open>the \<open>s3_uri\<close> of every \<open>MetricsSource\<close> of the two bundles of a registration\<close>
  "bundle_references r =
     map ms_s3_uri (metrics_sources (reg_model_metrics r)
                    @ drift_sources (reg_drift_check_baselines r))"

definition bundle_steps :: "pipeline \<Rightarrow> string list" where
  \<comment> \<open>the steps that the metrics bundles of the pipeline refer to\<close>
  "bundle_steps p =
     concat (map (\<lambda>r. concat (map value_steps (bundle_references r))) (registrations p))"

definition spec_stage :: "nat \<Rightarrow> string list" where
  \<comment> \<open>the numbered list of section 4.1 of the specification: for each number, the steps
      that the source builds for the stage the specification describes under it\<close>
  "spec_stage n =
     (if n = 1 then [''PreprocessHMDAData'']
      else if n = 2 then [''DataQualityCheckStep'']
      else if n = 3 then [''DataBiasCheckStep'']
      else if n = 4 then [''AutoMLStep'']
      else if n = 5 then [''HMDACreateModel'']
      else if n = 6 then [''HMDATransform'']
      else if n = 7 then [''ModelQualityCheckStep'']
      else if n = 8 then [''ModelBiasCheckStep'', ''ModelExplainabilityCheckStep'']
      else if n = 9 then [''EvaluateHMDAModel'']
      else if n = 11 then [''CheckF1HMDAEvaluation'', ''RegisterHMDAModel'']
      else [])"

definition spec_metrics_stages :: "nat list" where
  \<comment> \<open>the stages that the specification says the metrics aggregation collects from\<close>
  "spec_metrics_stages = [2, 3, 7, 8, 9]"

fun clarify_data_config :: "clarify_check_config \<Rightarrow> data_config" where
  "clarify_data_config (DataBiasCheckConfig dc bc) = dc"
| "clarify_data_config (ModelBiasCheckConfig dc bc mc plc) = dc"
| "clarify_data_config (ModelExplainabilityCheckConfig dc mc sc) = dc"

definition clarify_step_config :: "pipeline \<Rightarrow> string \<Rightarrow> clarify_check_config option" where
  \<comment> \<open>the configuration of the Clarify check step with that name\<close>
  "clarify_step_config p name =
     (case find_step p name of
        Some (ClarifyCheckStep s) \<Rightarrow> Some (ccs_clarify_check_config s)
      | _ \<Rightarrow> None)"

definition clarify_output_path :: "clarify_check_config \<Rightarrow> pipeline_value" where
  \<comment> \<open>the \<open>s3_output_path\<close> of the data configuration of a check\<close>
  "clarify_output_path c = dc_s3_output_path (clarify_data_config c)"

subsection \<open>A concrete call\<close>

definition example_env :: environment where
  "example_env =
     \<lparr>BASE_DIR = ''/opt/ml/code/pipelines/hmda'',
      boto_clients =
        (\<lambda>region. if region = ''eu-west-1'' then None
                  else Some (Exception ''Could not connect to the endpoint URL'')),
      get_execution_role = (\<lambda>s. Inr ''arn:aws:iam::111122223333:role/SageMakerRole''),
      platform_default_bucket = (\<lambda>region. Inr (''sagemaker-'' @ region @ ''-111122223333'')),
      ensure_bucket = (\<lambda>region bucket. None),
      sdk_rejects = (\<lambda>steps. None)\<rparr>"

definition example_pipeline :: pipeline where
  \<comment> \<open>what \<open>get_pipeline("eu-west-1")\<close> returns in \<open>example_env\<close>\<close>
  "example_pipeline =
     pipeline example_env (default_args ''eu-west-1'')
       ''arn:aws:iam::111122223333:role/SageMakerRole'' ''sagemaker-eu-west-1-111122223333''"

definition example_client :: "(string \<times> string) sagemaker_client" where
  \<comment> \<open>a client that knows four projects: one with a tag, one whose description has no
      \<open>ProjectArn\<close>, one whose tags may not be listed and one whose listing has no
      \<open>Tags\<close>; a tag is a pair of its \<open>Key\<close> and its \<open>Value\<close>\<close>
  "example_client =
     \<lparr>describe_project =
        (\<lambda>name.
           if name = Some ''hmda''
           then Inr [''ProjectArn'' \<mapsto> ''arn:aws:sagemaker:eu-west-1:111122223333:project/hmda'']
           else if name = Some ''hmda-no-arn''
           then Inr [''ProjectName'' \<mapsto> ''hmda-no-arn'']
           else if name = Some ''hmda-denied''
           then Inr [''ProjectArn'' \<mapsto> ''arn:aws:sagemaker:eu-west-1:111122223333:project/denied'']
           else if name = Some ''hmda-untagged''
           then Inr [''ProjectArn'' \<mapsto> ''arn:aws:sagemaker:eu-west-1:111122223333:project/untagged'']
           else Inl (Exception ''ValidationException'')),
      list_tags =
        (\<lambda>arn.
           if arn = ''arn:aws:sagemaker:eu-west-1:111122223333:project/hmda''
           then Inr [''Tags'' \<mapsto> [(''sagemaker:project-name'', ''hmda'')]]
           else if arn = ''arn:aws:sagemaker:eu-west-1:111122223333:project/untagged''
           then Inr Map.empty
           else Inl (Exception ''AccessDeniedException''))\<rparr>"

definition example_get_sagemaker_client ::
  "string \<Rightarrow> error + (string \<times> string) sagemaker_client" where
  "example_get_sagemaker_client region =
     (if region = ''eu-west-1'' then Inr example_client
      else Inl (Exception ''Could not connect to the endpoint URL''))"

definition example_report :: "rat \<Rightarrow> reports" where
  \<comment> \<open>an evaluation report whose weighted F1 is \<open>v\<close>\<close>
  "example_report v name file path =
     (if name = ''EvaluateHMDAModel'' \<and> file = evaluation_report
         \<and> path = ''classification_metrics.weighted_f1.value''
      then Some v else None)"

definition example_model :: "string list \<Rightarrow> string list" where
  \<comment> \<open>a model that predicts the label \<open>0\<close> for every record\<close>
  "example_model features = [''0'']"

section \<open>Properties\<close>

subsection \<open>The tag lookup\<close>

lemma append_all_append: "append_all new_tags project_tags = new_tags @ project_tags"
  by (induction project_tags arbitrary: new_tags) simp_all

text \<open>
  C8. Whatever the tag list and the region, \<open>get_pipeline_custom_tags\<close> returns a tag
  list and raises nothing. It returns exactly the tags supplied when the client cannot be
  created, when the project lookup raises, when its answer has no \<open>ProjectArn\<close>, when
  the tag listing raises, and when its answer has no \<open>Tags\<close>. When every one of them
  succeeds it returns the tags supplied followed by the tags listed for the project.
\<close>

theorem custom_tags_never_raise:
  "(\<exists>tags. returned (get_pipeline_custom_tags get_sagemaker_client new_tags region name)
              = Inr tags)
   \<and> (\<forall>e. get_sagemaker_client region = Inl e \<longrightarrow>
          returned (get_pipeline_custom_tags get_sagemaker_client new_tags region name)
            = Inr new_tags)
   \<and> (\<forall>sm_client e.
          get_sagemaker_client region = Inr sm_client
        \<and> describe_project sm_client name = Inl e \<longrightarrow>
          returned (get_pipeline_custom_tags get_sagemaker_client new_tags region name)
            = Inr new_tags)
   \<and> (\<forall>sm_client response.
          get_sagemaker_client region = Inr sm_client
        \<and> describe_project sm_client name = Inr response
        \<and> response ''ProjectArn'' = None \<longrightarrow>
          returned (get_pipeline_custom_tags get_sagemaker_client new_tags region name)
            = Inr new_tags)
   \<and> (\<forall>sm_client response arn e.
          get_sagemaker_client region = Inr sm_client
        \<and> describe_project sm_client name = Inr response
        \<and> response ''ProjectArn'' = Some arn
        \<and> list_tags sm_client arn = Inl e \<longrightarrow>
          returned (get_pipeline_custom_tags get_sagemaker_client new_tags region name)
            = Inr new_tags)
   \<and> (\<forall>sm_client response arn listing.
          get_sagemaker_client region = Inr sm_client
        \<and> describe_project sm_client name = Inr response
        \<and> response ''ProjectArn'' = Some arn
        \<and> list_tags sm_client arn = Inr listing
        \<and> listing ''Tags'' = None \<longrightarrow>
          returned (get_pipeline_custom_tags get_sagemaker_client new_tags region name)
            = Inr new_tags)
   \<and> (\<forall>sm_client response arn listing project_tags.
          get_sagemaker_client region = Inr sm_client
        \<and> describe_project sm_client name = Inr response
        \<and> response ''ProjectArn'' = Some arn
        \<and> list_tags sm_client arn = Inr listing
        \<and> listing ''Tags'' = Some project_tags \<longrightarrow>
          returned (get_pipeline_custom_tags get_sagemaker_client new_tags region name)
            = Inr (new_tags @ project_tags))"
  by (auto simp: get_pipeline_custom_tags_def fetch_project_tags_def subscript_def
      append_all_append split: sum.split error.split option.split)

theorem custom_tags_never_raise_witness:
  "returned (get_pipeline_custom_tags example_get_sagemaker_client
              [(''owner'', ''risk'')] ''eu-west-1'' (Some ''hmda''))
     = Inr [(''owner'', ''risk''), (''sagemaker:project-name'', ''hmda'')]
   \<and> returned (get_pipeline_custom_tags example_get_sagemaker_client
              [(''owner'', ''risk'')] ''eu-north-1'' (Some ''hmda''))
     = Inr [(''owner'', ''risk'')]
   \<and> returned (get_pipeline_custom_tags example_get_sagemaker_client
              [(''owner'', ''risk'')] ''eu-west-1'' None)
     = Inr [(''owner'', ''risk'')]
   \<and> returned (get_pipeline_custom_tags example_get_sagemaker_client
              [(''owner'', ''risk'')] ''eu-west-1'' (Some ''hmda-no-arn''))
     = Inr [(''owner'', ''risk'')]
   \<and> returned (get_pipeline_custom_tags example_get_sagemaker_client
              [(''owner'', ''risk'')] ''eu-west-1'' (Some ''hmda-denied''))
     = Inr [(''owner'', ''risk'')]
   \<and> returned (get_pipeline_custom_tags example_get_sagemaker_client
              [(''owner'', ''risk'')] ''eu-west-1'' (Some ''hmda-untagged''))
     = Inr [(''owner'', ''risk'')]"
  using
    custom_tags_never_raise [of example_get_sagemaker_client "[(''owner'', ''risk'')]"
      "''eu-west-1''" "Some ''hmda''"]
    custom_tags_never_raise [of example_get_sagemaker_client "[(''owner'', ''risk'')]"
      "''eu-north-1''" "Some ''hmda''"]
    custom_tags_never_raise [of example_get_sagemaker_client "[(''owner'', ''risk'')]"
      "''eu-west-1''" None]
    custom_tags_never_raise [of example_get_sagemaker_client "[(''owner'', ''risk'')]"
      "''eu-west-1''" "Some ''hmda-no-arn''"]
    custom_tags_never_raise [of example_get_sagemaker_client "[(''owner'', ''risk'')]"
      "''eu-west-1''" "Some ''hmda-denied''"]
    custom_tags_never_raise [of example_get_sagemaker_client "[(''owner'', ''risk'')]"
      "''eu-west-1''" "Some ''hmda-untagged''"]
  by (simp add: example_get_sagemaker_client_def example_client_def)

subsection \<open>What get_pipeline returns\<close>

lemma get_pipeline_Inr:
  assumes "get_pipeline env a = Inr p"
  shows "\<exists>role default_bucket.
           boto_clients env (arg_region a) = None
         \<and> session_default_bucket env (Session (arg_region a) (arg_default_bucket a))
             = Inr default_bucket
         \<and> (case arg_role a of
               None \<Rightarrow> get_execution_role env (Session (arg_region a) (arg_default_bucket a))
             | Some r \<Rightarrow> Inr r) = Inr role
         \<and> sdk_rejects env (pl_steps (pipeline env a role default_bucket)) = None
         \<and> p = pipeline env a role default_bucket"
proof (cases "boto_clients env (arg_region a)")
  case (Some e)
  with assms show ?thesis
    by (simp add: get_pipeline_def get_session_def)
next
  case None
  with assms show ?thesis
    by (auto simp: get_pipeline_def get_session_def get_pipeline_session_def
        split: sum.splits option.splits)
qed

lemmas step_names =
  step_process_def data_quality_check_step_def data_bias_check_step_def step_automl_def
  step_create_model_def step_transform_def model_quality_check_step_def
  model_bias_check_step_def model_explainability_check_step_def step_eval_def step_cond_def
  step_register_def

lemmas all_defs =
  step_process_args_def sklearn_processor_preprocess_def check_job_config_def
  data_quality_check_config_def data_bias_check_config_def data_bias_data_config_def
  data_bias_analysis_cfg_output_path_def step_automl_args_def auto_ml_def input_training_def
  best_auto_ml_model_def transformer_def transform_inputs_def model_quality_check_config_def
  model_bias_analysis_cfg_output_path_def model_bias_data_config_def model_config_def
  model_bias_check_config_def model_explainability_analysis_cfg_output_path_def
  model_explainability_data_config_def model_explainability_check_config_def
  sklearn_processor_evaluate_def step_eval_args_def model_metrics_def
  drift_check_baselines_def cond_lte_def

lemma pipeline_step_names:
  "map step_name (pl_steps (pipeline env a role default_bucket)) =
     [''PreprocessHMDAData'', ''DataQualityCheckStep'', ''DataBiasCheckStep'', ''AutoMLStep'',
      ''HMDACreateModel'', ''HMDATransform'', ''ModelQualityCheckStep'', ''ModelBiasCheckStep'',
      ''ModelExplainabilityCheckStep'', ''EvaluateHMDAModel'', ''CheckF1HMDAEvaluation'']"
  by (simp add: pipeline_def step_names)

lemma pipeline_step_kinds:
  "map step_kind (pl_steps (pipeline env a role default_bucket)) =
     [''ProcessingStep'', ''QualityCheckStep'', ''ClarifyCheckStep'', ''AutoMLStep'',
      ''ModelStep'', ''TransformStep'', ''QualityCheckStep'', ''ClarifyCheckStep'',
      ''ClarifyCheckStep'', ''ProcessingStep'', ''ConditionStep'']"
  by (simp add: pipeline_def step_cond_def)

lemma pipeline_nested_step_names:
  "map step_name (concat (map nested_steps (pl_steps (pipeline env a role default_bucket)))) =
     [''PreprocessHMDAData'', ''DataQualityCheckStep'', ''DataBiasCheckStep'', ''AutoMLStep'',
      ''HMDACreateModel'', ''HMDATransform'', ''ModelQualityCheckStep'', ''ModelBiasCheckStep'',
      ''ModelExplainabilityCheckStep'', ''EvaluateHMDAModel'', ''CheckF1HMDAEvaluation'',
      ''RegisterHMDAModel'']"
  by (simp add: pipeline_def step_names)

lemma example_returns:
  "get_pipeline example_env (default_args ''eu-west-1'') = Inr example_pipeline"
  by (simp add: get_pipeline_def get_session_def get_pipeline_session_def Session_def
        session_default_bucket_def example_env_def default_args_def example_pipeline_def)

lemma pipeline_roles:
  "set (concat (map step_roles (pl_steps (pipeline env a role default_bucket)))) = {role}"
  by (simp add: pipeline_def step_names step_process_args_def step_eval_args_def
        sklearn_processor_preprocess_def sklearn_processor_evaluate_def check_job_config_def
        step_automl_args_def auto_ml_def best_auto_ml_model_def)

lemma pipeline_sessions:
  "set (concat (map step_sessions (pl_steps (pipeline env a role default_bucket))))
     = {PipelineSession (arg_region a) default_bucket}"
  by (simp add: pipeline_def step_names step_process_args_def step_eval_args_def
        sklearn_processor_preprocess_def sklearn_processor_evaluate_def check_job_config_def
        step_automl_args_def auto_ml_def best_auto_ml_model_def transformer_def)


text \<open>
  C9. Whatever the arguments, the pipeline that \<open>get_pipeline\<close> returns lists eleven
  steps, one for each stage and in this order: preprocess, data-quality check, data-bias
  check, model search, model creation, batch transform, model-quality check, model-bias
  check, model-explainability check, evaluation, condition. Their names are pairwise
  distinct, also when the registration step inside the condition is counted.
\<close>

theorem one_step_per_stage:
  assumes "get_pipeline env a = Inr p"
  shows "map step_name (pl_steps p) =
           [''PreprocessHMDAData'', ''DataQualityCheckStep'', ''DataBiasCheckStep'',
            ''AutoMLStep'', ''HMDACreateModel'', ''HMDATransform'', ''ModelQualityCheckStep'',
            ''ModelBiasCheckStep'', ''ModelExplainabilityCheckStep'', ''EvaluateHMDAModel'',
            ''CheckF1HMDAEvaluation'']
         \<and> map step_kind (pl_steps p) =
           [''ProcessingStep'', ''QualityCheckStep'', ''ClarifyCheckStep'', ''AutoMLStep'',
            ''ModelStep'', ''TransformStep'', ''QualityCheckStep'', ''ClarifyCheckStep'',
            ''ClarifyCheckStep'', ''ProcessingStep'', ''ConditionStep'']
         \<and> length (pl_steps p) = 11
         \<and> distinct (map step_name (pl_steps p))
         \<and> distinct (map step_name (concat (map nested_steps (pl_steps p))))"
proof -
  from get_pipeline_Inr [OF assms] obtain role default_bucket
    where p: "p = pipeline env a role default_bucket" by blast
  have names: "map step_name (pl_steps p) =
           [''PreprocessHMDAData'', ''DataQualityCheckStep'', ''DataBiasCheckStep'',
            ''AutoMLStep'', ''HMDACreateModel'', ''HMDATransform'', ''ModelQualityCheckStep'',
            ''ModelBiasCheckStep'', ''ModelExplainabilityCheckStep'', ''EvaluateHMDAModel'',
            ''CheckF1HMDAEvaluation'']"
    unfolding p by (rule pipeline_step_names)
  have kinds: "map step_kind (pl_steps p) =
           [''ProcessingStep'', ''QualityCheckStep'', ''ClarifyCheckStep'', ''AutoMLStep'',
            ''ModelStep'', ''TransformStep'', ''QualityCheckStep'', ''ClarifyCheckStep'',
            ''ClarifyCheckStep'', ''ProcessingStep'', ''ConditionStep'']"
    unfolding p by (rule pipeline_step_kinds)
  have len: "length (pl_steps p) = 11"
    using arg_cong [OF names, of length] by simp
  have d1: "distinct (map step_name (pl_steps p))"
    unfolding names by simp
  have d2: "distinct (map step_name (concat (map nested_steps (pl_steps p))))"
    unfolding p pipeline_nested_step_names by simp
  show ?thesis
    apply (intro conjI)
    apply (rule names)
    apply (rule kinds)
    apply (rule len)
    apply (rule d1)
    apply (rule d2)
    done
qed

theorem one_step_per_stage_witness:
  "get_pipeline example_env (default_args ''eu-west-1'') = Inr example_pipeline
   \<and> length (pl_steps example_pipeline) = 11
   \<and> distinct (map step_name (pl_steps example_pipeline))"
  using example_returns one_step_per_stage [OF example_returns] by simp

text \<open>
  C5. When \<open>get_pipeline\<close> returns a pipeline and \<open>role\<close> is \<open>None\<close>, the role is the
  identity that \<open>get_execution_role\<close> finds for the session; when \<open>default_bucket\<close> is
  \<open>None\<close>, the bucket is the platform's default bucket for the region. Both are resolved
  before the steps are built, so every step carries that role and a session on that
  bucket, and nothing on the way has raised. A call needs the region only: with the
  defaults of the signature it returns the pipeline whenever the clients of the region
  can be created, the role and the bucket resolve, and the SDK accepts the steps.
\<close>

theorem role_and_bucket_resolved:
  "(get_pipeline env a = Inr p \<longrightarrow>
      (\<exists>role default_bucket.
         p = pipeline env a role default_bucket
       \<and> (arg_role a = None \<longrightarrow>
            get_execution_role env (Session (arg_region a) (arg_default_bucket a)) = Inr role)
       \<and> (arg_default_bucket a = None \<longrightarrow>
            platform_default_bucket env (arg_region a) = Inr default_bucket)
       \<and> boto_clients env (arg_region a) = None
       \<and> ensure_bucket env (arg_region a) default_bucket = None
       \<and> sdk_rejects env (pl_steps p) = None
       \<and> set (concat (map step_roles (pl_steps p))) = {role}
       \<and> set (concat (map step_sessions (pl_steps p)))
            = {\<lparr>psess_region = arg_region a, psess_default_bucket = default_bucket\<rparr>}
       \<and> pl_sagemaker_session p
            = \<lparr>psess_region = arg_region a, psess_default_bucket = default_bucket\<rparr>))
   \<and> (boto_clients env region = None
        \<and> platform_default_bucket env region = Inr bucket
        \<and> ensure_bucket env region bucket = None
        \<and> get_execution_role env (Session region None) = Inr identity
        \<and> sdk_rejects env (pl_steps (pipeline env (default_args region) identity bucket)) = None
      \<longrightarrow> get_pipeline env (default_args region)
            = Inr (pipeline env (default_args region) identity bucket))"
proof (intro conjI impI)
  assume r: "get_pipeline env a = Inr p"
  from get_pipeline_Inr [OF r] obtain role default_bucket where
    c: "boto_clients env (arg_region a) = None" and
    b: "session_default_bucket env (Session (arg_region a) (arg_default_bucket a))
          = Inr default_bucket" and
    i: "(case arg_role a of
           None \<Rightarrow> get_execution_role env (Session (arg_region a) (arg_default_bucket a))
         | Some r \<Rightarrow> Inr r) = Inr role" and
    k: "sdk_rejects env (pl_steps (pipeline env a role default_bucket)) = None" and
    p: "p = pipeline env a role default_bucket" by blast
  have 1: "arg_role a = None \<longrightarrow>
            get_execution_role env (Session (arg_region a) (arg_default_bucket a)) = Inr role"
    using i by (cases "arg_role a") simp_all
  have 2: "arg_default_bucket a = None \<longrightarrow>
            platform_default_bucket env (arg_region a) = Inr default_bucket"
    using b by (cases "arg_default_bucket a")
      (auto simp: session_default_bucket_def Session_def split: sum.splits option.splits)
  have 6: "ensure_bucket env (arg_region a) default_bucket = None"
    using b by (auto simp: session_default_bucket_def Session_def
        split: sum.splits option.splits if_splits)
  have 7: "sdk_rejects env (pl_steps p) = None"
    unfolding p by (rule k)
  have 3: "pl_sagemaker_session p
            = \<lparr>psess_region = arg_region a, psess_default_bucket = default_bucket\<rparr>"
    unfolding p by (simp add: pipeline_def PipelineSession_def)
  have 4: "set (concat (map step_roles (pl_steps p))) = {role}"
    unfolding p by (rule pipeline_roles)
  have 5: "set (concat (map step_sessions (pl_steps p)))
            = {\<lparr>psess_region = arg_region a, psess_default_bucket = default_bucket\<rparr>}"
    unfolding p pipeline_sessions by (simp add: PipelineSession_def)
  show "\<exists>role default_bucket.
         p = pipeline env a role default_bucket
       \<and> (arg_role a = None \<longrightarrow>
            get_execution_role env (Session (arg_region a) (arg_default_bucket a)) = Inr role)
       \<and> (arg_default_bucket a = None \<longrightarrow>
            platform_default_bucket env (arg_region a) = Inr default_bucket)
       \<and> boto_clients env (arg_region a) = None
       \<and> ensure_bucket env (arg_region a) default_bucket = None
       \<and> sdk_rejects env (pl_steps p) = None
       \<and> set (concat (map step_roles (pl_steps p))) = {role}
       \<and> set (concat (map step_sessions (pl_steps p)))
            = {\<lparr>psess_region = arg_region a, psess_default_bucket = default_bucket\<rparr>}
       \<and> pl_sagemaker_session p
            = \<lparr>psess_region = arg_region a, psess_default_bucket = default_bucket\<rparr>"
    apply (rule exI [of _ role])
    apply (rule exI [of _ default_bucket])
    apply (intro conjI)
    apply (rule p)
    apply (rule 1)
    apply (rule 2)
    apply (rule c)
    apply (rule 6)
    apply (rule 7)
    apply (rule 4)
    apply (rule 5)
    apply (rule 3)
    done
next
  assume "boto_clients env region = None
        \<and> platform_default_bucket env region = Inr bucket
        \<and> ensure_bucket env region bucket = None
        \<and> get_execution_role env (Session region None) = Inr identity
        \<and> sdk_rejects env (pl_steps (pipeline env (default_args region) identity bucket)) = None"
  then show "get_pipeline env (default_args region)
            = Inr (pipeline env (default_args region) identity bucket)"
    by (simp add: get_pipeline_def get_session_def get_pipeline_session_def Session_def
          session_default_bucket_def default_args_def)
qed

theorem role_and_bucket_resolved_witness:
  "get_pipeline example_env (default_args ''eu-west-1'') = Inr example_pipeline
   \<and> arg_role (default_args ''eu-west-1'') = None
   \<and> arg_default_bucket (default_args ''eu-west-1'') = None
   \<and> boto_clients example_env ''eu-west-1'' = None
   \<and> platform_default_bucket example_env ''eu-west-1'' = Inr ''sagemaker-eu-west-1-111122223333''
   \<and> ensure_bucket example_env ''eu-west-1'' ''sagemaker-eu-west-1-111122223333'' = None
   \<and> get_execution_role example_env (Session ''eu-west-1'' None)
        = Inr ''arn:aws:iam::111122223333:role/SageMakerRole''
   \<and> sdk_rejects example_env (pl_steps example_pipeline) = None
   \<and> set (concat (map step_roles (pl_steps example_pipeline)))
        = {''arn:aws:iam::111122223333:role/SageMakerRole''}
   \<and> pl_sagemaker_session example_pipeline
        = \<lparr>psess_region = ''eu-west-1'',
           psess_default_bucket = ''sagemaker-eu-west-1-111122223333''\<rparr>"
  using example_returns
    role_and_bucket_resolved [of example_env "default_args ''eu-west-1''" example_pipeline
      "''eu-west-1''" "''sagemaker-eu-west-1-111122223333''"
      "''arn:aws:iam::111122223333:role/SageMakerRole''"]
  by (auto simp: example_env_def default_args_def)

text \<open>
  C10. The parameter list of the returned pipeline holds the \<open>processing_instance_type\<close>
  and \<open>training_instance_type\<close> arguments themselves, at positions 0 and 2. With the
  default arguments they are the plain strings of the signature, not parameter objects.
  No step refers to \<open>training_instance_type\<close>: a call with another value for it returns
  the same pipeline but for that entry of the parameter list.
\<close>

theorem instance_types_in_parameter_list:
  assumes "get_pipeline env a = Inr p"
  shows "pl_parameters p ! 0 = arg_processing_instance_type a
       \<and> pl_parameters p ! 2 = arg_training_instance_type a
       \<and> (\<forall>t. get_pipeline env (a\<lparr>arg_training_instance_type := t\<rparr>)
                = Inr (p\<lparr>pl_parameters := (pl_parameters p)[2 := t]\<rparr>))
       \<and> (a = default_args region \<longrightarrow>
            pl_parameters p ! 0 = Str ''ml.t3.large''
          \<and> pl_parameters p ! 2 = Str ''ml.m5.xlarge''
          \<and> (\<forall>q. pl_parameters p ! 0 \<noteq> Param q \<and> pl_parameters p ! 2 \<noteq> Param q))"
proof -
  from get_pipeline_Inr [OF assms] obtain role default_bucket where
    c: "boto_clients env (arg_region a) = None" and
    b: "session_default_bucket env (Session (arg_region a) (arg_default_bucket a))
          = Inr default_bucket" and
    i: "(case arg_role a of
           None \<Rightarrow> get_execution_role env (Session (arg_region a) (arg_default_bucket a))
         | Some r \<Rightarrow> Inr r) = Inr role" and
    k: "sdk_rejects env (pl_steps (pipeline env a role default_bucket)) = None" and
    p: "p = pipeline env a role default_bucket" by blast
  have k': "sdk_rejects env (pl_steps p) = None"
    unfolding p by (rule k)
  have 0: "pl_parameters p ! 0 = arg_processing_instance_type a"
    unfolding p by (simp add: pipeline_def)
  have 2: "pl_parameters p ! 2 = arg_training_instance_type a"
    unfolding p by (simp add: pipeline_def)
  have steps: "pipeline env (a\<lparr>arg_training_instance_type := t\<rparr>) role default_bucket
                 = p\<lparr>pl_parameters := (pl_parameters p)[2 := t]\<rparr>" for t
    unfolding p by (simp add: pipeline_def step_names all_defs)
  have change: "get_pipeline env (a\<lparr>arg_training_instance_type := t\<rparr>)
                = Inr (p\<lparr>pl_parameters := (pl_parameters p)[2 := t]\<rparr>)" for t
    using c b i k' steps [of t]
    by (simp add: get_pipeline_def get_session_def get_pipeline_session_def)
  have dflt: "a = default_args region \<longrightarrow>
            pl_parameters p ! 0 = Str ''ml.t3.large''
          \<and> pl_parameters p ! 2 = Str ''ml.m5.xlarge''
          \<and> (\<forall>q. pl_parameters p ! 0 \<noteq> Param q \<and> pl_parameters p ! 2 \<noteq> Param q)"
    using 0 2 by (simp add: default_args_def)
  show ?thesis
    apply (intro conjI allI)
    apply (rule 0)
    apply (rule 2)
    apply (rule change)
    apply (rule dflt)
    done
qed

theorem instance_types_in_parameter_list_witness:
  "get_pipeline example_env (default_args ''eu-west-1'') = Inr example_pipeline
   \<and> pl_parameters example_pipeline ! 0 = Str ''ml.t3.large''
   \<and> pl_parameters example_pipeline ! 2 = Str ''ml.m5.xlarge''"
  using example_returns
    instance_types_in_parameter_list [OF example_returns, of "''eu-west-1''"]
  by (simp add: default_args_def)

subsection \<open>The steps\<close>

lemma find_step_pipeline:
  "find_step (pipeline env a role b) ''PreprocessHMDAData''
     = Some (ProcessingStep (step_process env a role b))"
  "find_step (pipeline env a role b) ''DataQualityCheckStep''
     = Some (QualityCheckStep (data_quality_check_step env a role b))"
  "find_step (pipeline env a role b) ''DataBiasCheckStep''
     = Some (ClarifyCheckStep (data_bias_check_step env a role b))"
  "find_step (pipeline env a role b) ''AutoMLStep''
     = Some (AutoMLStep (step_automl env a role b))"
  "find_step (pipeline env a role b) ''HMDACreateModel''
     = Some (ModelStep (step_create_model env a role b))"
  "find_step (pipeline env a role b) ''HMDATransform''
     = Some (TransformStep (step_transform env a role b))"
  "find_step (pipeline env a role b) ''ModelQualityCheckStep''
     = Some (QualityCheckStep (model_quality_check_step env a role b))"
  "find_step (pipeline env a role b) ''ModelBiasCheckStep''
     = Some (ClarifyCheckStep (model_bias_check_step env a role b))"
  "find_step (pipeline env a role b) ''ModelExplainabilityCheckStep''
     = Some (ClarifyCheckStep (model_explainability_check_step env a role b))"
  "find_step (pipeline env a role b) ''EvaluateHMDAModel''
     = Some (ProcessingStep (step_eval env a role b))"
  "find_step (pipeline env a role b) ''CheckF1HMDAEvaluation''
     = Some (step_cond env a role b)"
  by (simp_all add: find_step_def pipeline_def step_names)

text \<open>
  C4. In every returned pipeline the model-search step names exactly the two check steps
  \<open>DataQualityCheckStep\<close> and \<open>DataBiasCheckStep\<close> in \<open>depends_on\<close>; its one training
  input is the reference to the \<open>train\<close> output of the preprocess step, the only step its
  data refers to, so the two dependencies are not implied by its data; and its configuration
  sets the candidate count, the two time budgets, the objective metric and the mode.
\<close>

theorem automl_step_dependencies:
  assumes "get_pipeline env a = Inr p"
  shows "\<exists>s pre dq db.
           find_step p ''AutoMLStep'' = Some (AutoMLStep s)
         \<and> ams_depends_on s = [''DataQualityCheckStep'', ''DataBiasCheckStep'']
         \<and> find_step p ''DataQualityCheckStep'' = Some (QualityCheckStep dq)
         \<and> find_step p ''DataBiasCheckStep'' = Some (ClarifyCheckStep db)
         \<and> map ami_inputs (fit_inputs (ams_step_args s)) =
             [Property ''PreprocessHMDAData''
                [''ProcessingOutputConfig'', ''Outputs'', ''train'', ''S3Output'', ''S3Uri'']]
         \<and> map ami_channel_type (fit_inputs (ams_step_args s)) = [''training'']
         \<and> find_step p ''PreprocessHMDAData'' = Some (ProcessingStep pre)
         \<and> ''train'' \<in> set (map po_output_name (run_outputs (ps_step_args pre)))
         \<and> auto_ml_step_references s = [''PreprocessHMDAData'']
         \<and> aml_max_candidates (fit_auto_ml (ams_step_args s)) = 1
         \<and> aml_max_runtime_per_training_job_in_seconds (fit_auto_ml (ams_step_args s)) = 180
         \<and> aml_total_job_runtime_in_seconds (fit_auto_ml (ams_step_args s)) = 540
         \<and> aml_job_objective (fit_auto_ml (ams_step_args s)) = [(''MetricName'', ''F1'')]
         \<and> aml_mode (fit_auto_ml (ams_step_args s)) = ''ENSEMBLING''"
proof -
  from get_pipeline_Inr [OF assms] obtain role b
    where p: "p = pipeline env a role b" by blast
  show ?thesis
    unfolding p
    apply (rule exI [of _ "step_automl env a role b"])
    apply (rule exI [of _ "step_process env a role b"])
    apply (rule exI [of _ "data_quality_check_step env a role b"])
    apply (rule exI [of _ "data_bias_check_step env a role b"])
    apply (simp only: find_step_pipeline simp_thms)
    apply (simp add: step_automl_def step_automl_args_def input_training_def auto_ml_def
             step_process_def step_process_args_def properties_def auto_ml_step_references_def)
    done
qed

theorem automl_step_dependencies_witness:
  "get_pipeline example_env (default_args ''eu-west-1'') = Inr example_pipeline
   \<and> (\<exists>s. find_step example_pipeline ''AutoMLStep'' = Some (AutoMLStep s)
          \<and> ams_depends_on s = [''DataQualityCheckStep'', ''DataBiasCheckStep''])"
  using example_returns automl_step_dependencies [OF example_returns] by auto

text \<open>
  C6. In every returned pipeline the first step, \<open>PreprocessHMDAData\<close>, runs the script
  \<open>preprocess.py\<close>; the one thing it is given is the raw-data location parameter
  \<open>InputDataUrl\<close>, a declared parameter of the pipeline, which reaches the script as the
  value of its \<open>--input-data\<close> argument (the call passes no \<open>inputs\<close>); and it declares
  exactly the three outputs \<open>train\<close>, \<open>train_no_header\<close> and \<open>test\<close>.
\<close>

theorem preprocess_step_shape:
  assumes "get_pipeline env a = Inr p"
  shows "\<exists>pre default_bucket.
           hd (pl_steps p) = ProcessingStep pre
         \<and> find_step p ''PreprocessHMDAData'' = Some (ProcessingStep pre)
         \<and> run_code (ps_step_args pre) = os_path_join (BASE_DIR env) ''preprocess.py''
         \<and> processing_step_inputs pre = [Param (input_data default_bucket)]
         \<and> run_arguments (ps_step_args pre)
              = Some [Str ''--input-data'', Param (input_data default_bucket)]
         \<and> run_inputs (ps_step_args pre) = None
         \<and> input_data default_bucket
              = ParameterString ''InputDataUrl''
                  (''s3://'' @ default_bucket @ ''/dataset/state_DC.csv'')
         \<and> Param (input_data default_bucket) \<in> set (pl_parameters p)
         \<and> map po_output_name (run_outputs (ps_step_args pre))
              = [''train'', ''train_no_header'', ''test'']
         \<and> length (run_outputs (ps_step_args pre)) = 3"
proof -
  from get_pipeline_Inr [OF assms] obtain role b
    where p: "p = pipeline env a role b" by blast
  have h: "hd (pl_steps (pipeline env a role b)) = ProcessingStep (step_process env a role b)"
    by (simp add: pipeline_def)
  have m: "Param (input_data b) \<in> set (pl_parameters (pipeline env a role b))"
    by (simp add: pipeline_def)
  show ?thesis
    unfolding p
    apply (rule exI [of _ "step_process env a role b"])
    apply (rule exI [of _ b])
    apply (simp only: find_step_pipeline h m simp_thms)
    apply (simp add: step_process_def step_process_args_def processing_step_inputs_def
             input_data_def)
    done
qed

theorem preprocess_step_shape_witness:
  "get_pipeline example_env (default_args ''eu-west-1'') = Inr example_pipeline
   \<and> (\<exists>pre. find_step example_pipeline ''PreprocessHMDAData'' = Some (ProcessingStep pre)
          \<and> map po_output_name (run_outputs (ps_step_args pre))
              = [''train'', ''train_no_header'', ''test''])"
  using example_returns preprocess_step_shape [OF example_returns] by auto

lemma last_pipeline:
  "last (pl_steps (pipeline env a role b)) = step_cond env a role b"
  by (simp add: pipeline_def)

lemma register_not_top_level:
  "ModelStep (step_register env a role b) \<notin> set (pl_steps (pipeline env a role b))"
  by (simp add: pipeline_def step_register_def step_create_model_def step_cond_def)

text \<open>
  C1. In every returned pipeline the last step is the condition step. Its one condition is
  a greater-than-or-equal comparison of the value at
  \<open>classification_metrics.weighted_f1.value\<close> in the evaluation report, the property
  file of the evaluation step, with the threshold \<open>0.5\<close>. Its \<open>if\<close> branch is the
  registration step alone, which stands nowhere else in the pipeline, and its \<open>else\<close>
  branch is empty: the registration step runs exactly when the report value is read and
  is at least \<open>0.5\<close>, and nothing runs otherwise.
\<close>

theorem registration_gate:
  assumes "get_pipeline env a = Inr p"
  shows "\<exists>reg r ev.
           last (pl_steps p) =
             ConditionStep ''CheckF1HMDAEvaluation''
               [ConditionGreaterThanOrEqualTo
                  (JsonGet ''EvaluateHMDAModel'' evaluation_report
                     ''classification_metrics.weighted_f1.value'')
                  (Number (1 / 2))]
               [ModelStep reg] []
         \<and> mst_name reg = ''RegisterHMDAModel''
         \<and> mst_step_args reg = Register r
         \<and> ModelStep reg \<notin> set (pl_steps p)
         \<and> find_step p ''EvaluateHMDAModel'' = Some (ProcessingStep ev)
         \<and> ps_property_files ev = Some [evaluation_report]
         \<and> pf_output_name evaluation_report
              \<in> set (map po_output_name (run_outputs (ps_step_args ev)))
         \<and> (\<forall>rd. selected_branch rd (last (pl_steps p)) =
               (case rd ''EvaluateHMDAModel'' evaluation_report
                       ''classification_metrics.weighted_f1.value'' of
                  None \<Rightarrow> None
                | Some v \<Rightarrow> Some (if 1 / 2 \<le> v then [ModelStep reg] else [])))"
proof -
  from get_pipeline_Inr [OF assms] obtain role b
    where p: "p = pipeline env a role b" by blast
  show ?thesis
    unfolding p
    apply (rule exI [of _ "step_register env a role b"])
    apply (rule exI [of _ "\<lparr>reg_model = best_auto_ml_model env a role b,
           reg_content_types = [''text/csv''],
           reg_response_types = [''text/csv''],
           reg_inference_instances = [''ml.m5.xlarge''],
           reg_transform_instances = [''ml.m5.xlarge''],
           reg_model_package_group_name = arg_model_package_group_name a,
           reg_approval_status = Param model_approval_status,
           reg_model_metrics = model_metrics env a role b,
           reg_drift_check_baselines = drift_check_baselines env a role b\<rparr>"])
    apply (rule exI [of _ "step_eval env a role b"])
    apply (simp only: find_step_pipeline last_pipeline register_not_top_level simp_thms)
    apply (simp add: step_cond_def cond_lte_def step_eval_def step_eval_args_def
             step_register_def evaluation_report_def split: option.split)
    done
qed

theorem registration_gate_witness:
  "get_pipeline example_env (default_args ''eu-west-1'') = Inr example_pipeline
   \<and> (\<exists>reg. selected_branch (example_report (3 / 4)) (last (pl_steps example_pipeline))
               = Some [ModelStep reg]
            \<and> mst_name reg = ''RegisterHMDAModel'')
   \<and> selected_branch (example_report (1 / 4)) (last (pl_steps example_pipeline)) = Some []"
  using example_returns registration_gate [OF example_returns]
  by (auto simp: example_report_def)

subsection \<open>The batch transform\<close>

lemma parse_input_filter: "parse_filter ''$[1:]'' = Some (Slice (Some 1) None)"
  by (simp add: parse_filter_def parse_selector_def digit_def)

lemma parse_output_filter: "parse_filter ''$[0,-1]'' = Some (Indices [0, - 1])"
  by (simp add: parse_filter_def parse_selector_def digit_def)

lemma input_filter_drops_first: "apply_filter ''$[1:]'' (x # xs) = Some xs"
  by (simp add: apply_filter_def parse_input_filter clamp_index_def)

lemma output_filter_first_last:
  "xs \<noteq> [] \<Longrightarrow> apply_filter ''$[0,-1]'' xs = Some [hd xs, last xs]"
  by (cases xs) (auto simp: apply_filter_def parse_output_filter element_at_def Let_def
      last_conv_nth nat_add_distrib hd_conv_nth)

text \<open>
  C3, as the code has it. In every returned pipeline the batch-transform step applies the
  model of the model-creation step to the \<open>test\<close> output of the preprocess step, splits
  and assembles by line and joins on the input. Its input filter \<open>$[1:]\<close> drops the
  first column of a record. Its output filter \<open>$[0,-1]\<close> keeps the first and the last
  column of the joined record: the first column of the input, which the input filter kept
  from the model, and the prediction. The model-quality check reads them that way, the
  first as ground truth \<open>_c0\<close> and the second as inference \<open>_c1\<close>.
\<close>

theorem batch_transform_wiring:
  assumes "get_pipeline env a = Inr p"
  shows "\<exists>t pre cm c q m.
           find_step p ''HMDATransform'' = Some (TransformStep t)
         \<and> tr_model_name (tf_transformer (tst_step_args t))
              = Property ''HMDACreateModel'' [''ModelName'']
         \<and> find_step p ''HMDACreateModel'' = Some (ModelStep cm)
         \<and> mst_step_args cm = Create c
         \<and> tf_data (tst_step_args t)
              = Property ''PreprocessHMDAData''
                  [''ProcessingOutputConfig'', ''Outputs'', ''test'', ''S3Output'', ''S3Uri'']
         \<and> find_step p ''PreprocessHMDAData'' = Some (ProcessingStep pre)
         \<and> ''test'' \<in> set (map po_output_name (run_outputs (ps_step_args pre)))
         \<and> tf_input_filter (tst_step_args t) = ''$[1:]''
         \<and> tf_output_filter (tst_step_args t) = ''$[0,-1]''
         \<and> tf_split_type (tst_step_args t) = ''Line''
         \<and> tr_assemble_with (tf_transformer (tst_step_args t)) = ''Line''
         \<and> tf_join_source (tst_step_args t) = ''Input''
         \<and> (\<forall>(x::'a) xs. apply_filter (tf_input_filter (tst_step_args t)) (x # xs) = Some xs)
         \<and> (\<forall>(x::'a) xs.
               apply_filter (tf_output_filter (tst_step_args t)) (x # xs)
                 = Some [x, last (x # xs)])
         \<and> (\<forall>model (x::'a) xs.
               transform_record (tst_step_args t) model (x # xs)
                 = Some [x, last (x # xs @ model xs)])
         \<and> (\<forall>model (x::'a) xs y. model xs = [y] \<longrightarrow>
               transform_record (tst_step_args t) model (x # xs) = Some [x, y])
         \<and> find_step p ''ModelQualityCheckStep'' = Some (QualityCheckStep q)
         \<and> qcs_quality_check_config q = ModelQualityCheckConfig m
         \<and> mq_baseline_dataset m
              = Property ''HMDATransform'' [''TransformOutput'', ''S3OutputPath'']
         \<and> mq_ground_truth_attribute m = ''_c0''
         \<and> mq_inference_attribute m = ''_c1''"
proof -
  from get_pipeline_Inr [OF assms] obtain role b
    where p: "p = pipeline env a role b" by blast
  have f: "apply_filter ''$[0,-1]'' (x # xs) = Some [x, last (x # xs)]" for x :: 'a and xs
    using output_filter_first_last [of "x # xs"] by simp
  have t: "transform_record (tst_step_args (step_transform env a role b)) model (x # xs)
             = Some [x, last (x # xs @ model xs)]" for model and x :: 'a and xs
    using output_filter_first_last [of "x # xs @ model xs"]
    by (simp add: transform_record_def step_transform_def input_filter_drops_first
          join_record_def)
  have t1: "model xs = [y] \<longrightarrow>
            transform_record (tst_step_args (step_transform env a role b)) model (x # xs)
             = Some [x, y]" for model and x :: 'a and xs y
    by (simp add: t)
  show ?thesis
    unfolding p
    apply (rule exI [of _ "step_transform env a role b"])
    apply (rule exI [of _ "step_process env a role b"])
    apply (rule exI [of _ "step_create_model env a role b"])
    apply (rule exI [of _ "\<lparr>mcr_model = best_auto_ml_model env a role b,
                mcr_instance_type = ''ml.m5.xlarge''\<rparr>"])
    apply (rule exI [of _ "model_quality_check_step env a role b"])
    apply (rule exI [of _ "model_quality_check_config env a role b"])
    apply (simp only: find_step_pipeline t t1 simp_thms)
    apply (simp add: step_transform_def transformer_def transform_inputs_def
             step_create_model_def step_process_def step_process_args_def properties_def
             model_quality_check_step_def model_quality_check_config_def
             input_filter_drops_first f)
    done
qed

theorem batch_transform_wiring_witness:
  "get_pipeline example_env (default_args ''eu-west-1'') = Inr example_pipeline
   \<and> example_model [''a'', ''b''] = [''0'']
   \<and> (\<exists>t. find_step example_pipeline ''HMDATransform'' = Some (TransformStep t)
          \<and> transform_record (tst_step_args t) example_model [''1'', ''a'', ''b'']
              = Some [''1'', ''0''])"
  using example_returns batch_transform_wiring [OF example_returns, where ?'a = string]
  by (auto simp: example_model_def)

text \<open>
  C3 as the specification words it fails: for the record \<open>1,a,b\<close> and a model that
  answers \<open>0\<close>, the line written is \<open>1,0\<close>, and its first column is neither the
  prediction nor the last column of the joined record \<open>1,a,b,0\<close>.
\<close>

theorem output_filter_keeps_first_column:
  "find_step example_pipeline ''HMDATransform''
     = Some (TransformStep
              (step_transform example_env (default_args ''eu-west-1'')
                 ''arn:aws:iam::111122223333:role/SageMakerRole''
                 ''sagemaker-eu-west-1-111122223333''))
   \<and> transform_record
        (tst_step_args
           (step_transform example_env (default_args ''eu-west-1'')
              ''arn:aws:iam::111122223333:role/SageMakerRole''
              ''sagemaker-eu-west-1-111122223333''))
        example_model [''1'', ''a'', ''b'']
       = Some [''1'', ''0'']
   \<and> \<not> set [''1'', ''0'']
         \<subseteq> spec_kept_columns ([''1'', ''a'', ''b''] @ example_model [''a'', ''b''])
             (example_model [''a'', ''b''])"
  using output_filter_first_last [of "[''1'', ''a'', ''b'', ''0'']"]
  by (simp add: example_pipeline_def find_step_pipeline transform_record_def step_transform_def
        input_filter_drops_first join_record_def example_model_def spec_kept_columns_def)

subsection \<open>The metrics bundles\<close>

lemma pipeline_registrations:
  "registrations (pipeline env a role b) =
     [\<lparr>reg_model = best_auto_ml_model env a role b,
       reg_content_types = [''text/csv''],
       reg_response_types = [''text/csv''],
       reg_inference_instances = [''ml.m5.xlarge''],
       reg_transform_instances = [''ml.m5.xlarge''],
       reg_model_package_group_name = arg_model_package_group_name a,
       reg_approval_status = Param model_approval_status,
       reg_model_metrics = model_metrics env a role b,
       reg_drift_check_baselines = drift_check_baselines env a role b\<rparr>]"
  by (simp add: registrations_def pipeline_def step_names)

lemma model_metrics_references:
  "map ms_s3_uri (metrics_sources (model_metrics env a role b)) =
     [Property ''DataQualityCheckStep'' [''CalculatedBaselineStatistics''],
      Property ''DataQualityCheckStep'' [''CalculatedBaselineConstraints''],
      Property ''DataBiasCheckStep'' [''CalculatedBaselineConstraints''],
      Property ''ModelQualityCheckStep'' [''CalculatedBaselineStatistics''],
      Property ''ModelQualityCheckStep'' [''CalculatedBaselineConstraints''],
      Property ''ModelBiasCheckStep'' [''CalculatedBaselineConstraints''],
      Property ''ModelBiasCheckStep'' [''CalculatedBaselineConstraints''],
      Property ''ModelExplainabilityCheckStep'' [''CalculatedBaselineConstraints'']]"
  by (simp add: metrics_sources_def model_metrics_def MetricsSource_def properties_def
        step_names)

lemma drift_check_baselines_references:
  "map ms_s3_uri (drift_sources (drift_check_baselines env a role b)) =
     [Property ''DataQualityCheckStep'' [''BaselineUsedForDriftCheckStatistics''],
      Property ''DataQualityCheckStep'' [''BaselineUsedForDriftCheckConstraints''],
      Property ''DataBiasCheckStep'' [''BaselineUsedForDriftCheckConstraints''],
      Property ''ModelQualityCheckStep'' [''BaselineUsedForDriftCheckStatistics''],
      Property ''ModelQualityCheckStep'' [''BaselineUsedForDriftCheckConstraints''],
      Property ''ModelBiasCheckStep'' [''BaselineUsedForDriftCheckConstraints''],
      Property ''ModelExplainabilityCheckStep'' [''BaselineUsedForDriftCheckConstraints'']]"
  by (simp add: drift_sources_def drift_check_baselines_def MetricsSource_def properties_def
        step_names)

lemma drift_check_baselines_files:
  "map fs_s3_uri (drift_files (drift_check_baselines env a role b)) =
     [MonitoringAnalysisConfigUri (model_bias_check_config env a role b),
      MonitoringAnalysisConfigUri (model_explainability_check_config env a role b)]"
  by (simp add: drift_files_def drift_check_baselines_def FileSource_def
        monitoring_analysis_config_uri_def)

lemma pipeline_bundle_steps:
  "bundle_steps (pipeline env a role b) =
     [''DataQualityCheckStep'', ''DataQualityCheckStep'', ''DataBiasCheckStep'',
      ''ModelQualityCheckStep'', ''ModelQualityCheckStep'', ''ModelBiasCheckStep'',
      ''ModelBiasCheckStep'', ''ModelExplainabilityCheckStep'',
      ''DataQualityCheckStep'', ''DataQualityCheckStep'', ''DataBiasCheckStep'',
      ''ModelQualityCheckStep'', ''ModelQualityCheckStep'', ''ModelBiasCheckStep'',
      ''ModelExplainabilityCheckStep'']"
proof -
  have refs: "map bundle_references (registrations (pipeline env a role b)) =
     [[Property ''DataQualityCheckStep'' [''CalculatedBaselineStatistics''],
       Property ''DataQualityCheckStep'' [''CalculatedBaselineConstraints''],
       Property ''DataBiasCheckStep'' [''CalculatedBaselineConstraints''],
       Property ''ModelQualityCheckStep'' [''CalculatedBaselineStatistics''],
       Property ''ModelQualityCheckStep'' [''CalculatedBaselineConstraints''],
       Property ''ModelBiasCheckStep'' [''CalculatedBaselineConstraints''],
       Property ''ModelBiasCheckStep'' [''CalculatedBaselineConstraints''],
       Property ''ModelExplainabilityCheckStep'' [''CalculatedBaselineConstraints''],
       Property ''DataQualityCheckStep'' [''BaselineUsedForDriftCheckStatistics''],
       Property ''DataQualityCheckStep'' [''BaselineUsedForDriftCheckConstraints''],
       Property ''DataBiasCheckStep'' [''BaselineUsedForDriftCheckConstraints''],
       Property ''ModelQualityCheckStep'' [''BaselineUsedForDriftCheckStatistics''],
       Property ''ModelQualityCheckStep'' [''BaselineUsedForDriftCheckConstraints''],
       Property ''ModelBiasCheckStep'' [''BaselineUsedForDriftCheckConstraints''],
       Property ''ModelExplainabilityCheckStep'' [''BaselineUsedForDriftCheckConstraints'']]]"
    by (simp add: pipeline_registrations bundle_references_def model_metrics_references
          drift_check_baselines_references)
  have "bundle_steps (pipeline env a role b) =
          concat (map (\<lambda>vs. concat (map value_steps vs))
                    (map bundle_references (registrations (pipeline env a role b))))"
    by (simp add: bundle_steps_def comp_def)
  then show ?thesis
    unfolding refs by simp
qed

text \<open>
  C2, as the code has it. In every returned pipeline the one registration carries the two
  bundles. Every \<open>MetricsSource\<close> of the first is a \<open>CalculatedBaseline\<close> property and
  every \<open>MetricsSource\<close> of the second a \<open>BaselineUsedForDriftCheck\<close> property of the
  data-quality, data-bias, model-quality, model-bias or model-explainability check step,
  and the two \<open>FileSource\<close> fields are the analysis configurations of the model-bias and
  model-explainability checks. These are the stages 2, 3, 7 and 8 of the specification's
  list; the evaluation step, its stage 9, gives no field to either bundle.
\<close>

theorem metrics_bundles_sources:
  assumes "get_pipeline env a = Inr p"
  shows "\<exists>r sb se.
           registrations p = [r]
         \<and> map ms_s3_uri (metrics_sources (reg_model_metrics r)) =
             [Property ''DataQualityCheckStep'' [''CalculatedBaselineStatistics''],
              Property ''DataQualityCheckStep'' [''CalculatedBaselineConstraints''],
              Property ''DataBiasCheckStep'' [''CalculatedBaselineConstraints''],
              Property ''ModelQualityCheckStep'' [''CalculatedBaselineStatistics''],
              Property ''ModelQualityCheckStep'' [''CalculatedBaselineConstraints''],
              Property ''ModelBiasCheckStep'' [''CalculatedBaselineConstraints''],
              Property ''ModelBiasCheckStep'' [''CalculatedBaselineConstraints''],
              Property ''ModelExplainabilityCheckStep'' [''CalculatedBaselineConstraints'']]
         \<and> map ms_s3_uri (drift_sources (reg_drift_check_baselines r)) =
             [Property ''DataQualityCheckStep'' [''BaselineUsedForDriftCheckStatistics''],
              Property ''DataQualityCheckStep'' [''BaselineUsedForDriftCheckConstraints''],
              Property ''DataBiasCheckStep'' [''BaselineUsedForDriftCheckConstraints''],
              Property ''ModelQualityCheckStep'' [''BaselineUsedForDriftCheckStatistics''],
              Property ''ModelQualityCheckStep'' [''BaselineUsedForDriftCheckConstraints''],
              Property ''ModelBiasCheckStep'' [''BaselineUsedForDriftCheckConstraints''],
              Property ''ModelExplainabilityCheckStep''
                [''BaselineUsedForDriftCheckConstraints'']]
         \<and> find_step p ''ModelBiasCheckStep'' = Some (ClarifyCheckStep sb)
         \<and> find_step p ''ModelExplainabilityCheckStep'' = Some (ClarifyCheckStep se)
         \<and> map fs_s3_uri (drift_files (reg_drift_check_baselines r)) =
             [MonitoringAnalysisConfigUri (ccs_clarify_check_config sb),
              MonitoringAnalysisConfigUri (ccs_clarify_check_config se)]
         \<and> set (bundle_steps p) =
             {''DataQualityCheckStep'', ''DataBiasCheckStep'', ''ModelQualityCheckStep'',
              ''ModelBiasCheckStep'', ''ModelExplainabilityCheckStep''}
         \<and> set (bundle_steps p) = set (concat (map spec_stage [2, 3, 7, 8]))
         \<and> set (bundle_steps p) \<subseteq> set (map step_name (pl_steps p))
         \<and> ''EvaluateHMDAModel'' \<notin> set (bundle_steps p)"
proof -
  from get_pipeline_Inr [OF assms] obtain role b
    where p: "p = pipeline env a role b" by blast
  have s1: "set (bundle_steps (pipeline env a role b)) =
             {''DataQualityCheckStep'', ''DataBiasCheckStep'', ''ModelQualityCheckStep'',
              ''ModelBiasCheckStep'', ''ModelExplainabilityCheckStep''}"
    unfolding pipeline_bundle_steps by (simp add: insert_commute)
  have s2: "set (concat (map spec_stage [2, 3, 7, 8])) =
             {''DataQualityCheckStep'', ''DataBiasCheckStep'', ''ModelQualityCheckStep'',
              ''ModelBiasCheckStep'', ''ModelExplainabilityCheckStep''}"
    by (simp add: spec_stage_def)
  have s3: "{''DataQualityCheckStep'', ''DataBiasCheckStep'', ''ModelQualityCheckStep'',
              ''ModelBiasCheckStep'', ''ModelExplainabilityCheckStep''}
            \<subseteq> set (map step_name (pl_steps (pipeline env a role b)))"
    unfolding pipeline_step_names by simp
  have s4: "''EvaluateHMDAModel'' \<notin>
             {''DataQualityCheckStep'', ''DataBiasCheckStep'', ''ModelQualityCheckStep'',
              ''ModelBiasCheckStep'', ''ModelExplainabilityCheckStep''}"
    by simp
  show ?thesis
    unfolding p
    apply (rule exI [of _ "\<lparr>reg_model = best_auto_ml_model env a role b,
       reg_content_types = [''text/csv''],
       reg_response_types = [''text/csv''],
       reg_inference_instances = [''ml.m5.xlarge''],
       reg_transform_instances = [''ml.m5.xlarge''],
       reg_model_package_group_name = arg_model_package_group_name a,
       reg_approval_status = Param model_approval_status,
       reg_model_metrics = model_metrics env a role b,
       reg_drift_check_baselines = drift_check_baselines env a role b\<rparr>"])
    apply (rule exI [of _ "model_bias_check_step env a role b"])
    apply (rule exI [of _ "model_explainability_check_step env a role b"])
    apply (simp only: find_step_pipeline pipeline_registrations s1 s2 s3 s4 simp_thms)
    apply (simp add: model_metrics_references drift_check_baselines_references
             drift_check_baselines_files model_bias_check_step_def
             model_explainability_check_step_def)
    done
qed

theorem metrics_bundles_sources_witness:
  "get_pipeline example_env (default_args ''eu-west-1'') = Inr example_pipeline
   \<and> set (bundle_steps example_pipeline) =
       {''DataQualityCheckStep'', ''DataBiasCheckStep'', ''ModelQualityCheckStep'',
        ''ModelBiasCheckStep'', ''ModelExplainabilityCheckStep''}"
  using example_returns metrics_bundles_sources [OF example_returns] by auto

text \<open>
  C2 as the specification words it fails: its list of stages 2, 3, 7, 8, 9 includes the
  evaluation step, to which no field of the bundles of the example pipeline refers.
\<close>

theorem evaluation_step_not_in_bundles:
  "''EvaluateHMDAModel'' \<in> set (concat (map spec_stage spec_metrics_stages))
   \<and> ''EvaluateHMDAModel'' \<notin> set (bundle_steps example_pipeline)
   \<and> set (bundle_steps example_pipeline) \<noteq> set (concat (map spec_stage spec_metrics_stages))"
proof -
  have 1: "''EvaluateHMDAModel'' \<in> set (concat (map spec_stage spec_metrics_stages))"
    by (simp add: spec_stage_def spec_metrics_stages_def)
  have 2: "''EvaluateHMDAModel'' \<notin> set (bundle_steps example_pipeline)"
    unfolding example_pipeline_def pipeline_bundle_steps by simp
  from 1 2 have 3: "set (bundle_steps example_pipeline)
                      \<noteq> set (concat (map spec_stage spec_metrics_stages))"
    by (rule_tac notI) simp
  show ?thesis
    apply (intro conjI)
    apply (rule 1)
    apply (rule 2)
    apply (rule 3)
    done
qed

subsection \<open>The two bias checks\<close>

lemma analysis_cfg_paths_differ:
  "model_bias_analysis_cfg_output_path a b \<noteq> data_bias_analysis_cfg_output_path a b"
  by (simp add: model_bias_analysis_cfg_output_path_def data_bias_analysis_cfg_output_path_def)

text \<open>
  C7, as the code has it. In every returned pipeline the model-bias check has the label
  column \<open>action_taken\<close>, the header list, the facet columns and the label threshold of
  the data-bias check, and the same input data and dataset type. It differs in naming the
  created model and a predicted-label configuration, and in its two output locations,
  \<open>s3_output_path\<close> and \<open>s3_analysis_config_output_path\<close>, which are its own: they
  end in \<open>modelbiascheckstep\<close> where those of the data-bias check end in
  \<open>databiascheckstep\<close>.
\<close>

theorem model_bias_mirrors_data_bias:
  assumes "get_pipeline env a = Inr p"
  shows "\<exists>dc bc dc' bc' mc cm c default_bucket.
           clarify_step_config p ''DataBiasCheckStep'' = Some (DataBiasCheckConfig dc bc)
         \<and> clarify_step_config p ''ModelBiasCheckStep''
              = Some (ModelBiasCheckConfig dc' bc' mc ModelPredictedLabelConfig)
         \<and> dc_label dc = ''action_taken''
         \<and> dc_label dc' = dc_label dc
         \<and> dc_headers dc' = dc_headers dc
         \<and> length (dc_headers dc) = 27
         \<and> hd (dc_headers dc) = dc_label dc
         \<and> bc_facet_name bc' = bc_facet_name bc
         \<and> bc_facet_name bc =
             [''derived_sex'', ''derived_age_above_62'', ''derived_age_below_25'',
              ''derived_race_revisited'', ''if_co-applicant'']
         \<and> bc_label_values_or_threshold bc' = bc_label_values_or_threshold bc
         \<and> bc_label_values_or_threshold bc = [1]
         \<and> bc' = bc
         \<and> mc_model_name mc = Property ''HMDACreateModel'' [''ModelName'']
         \<and> find_step p ''HMDACreateModel'' = Some (ModelStep cm)
         \<and> mst_step_args cm = Create c
         \<and> dc'\<lparr>dc_s3_output_path := dc_s3_output_path dc,
                dc_s3_analysis_config_output_path := dc_s3_analysis_config_output_path dc\<rparr>
              = dc
         \<and> dc_s3_output_path dc' \<noteq> dc_s3_output_path dc
         \<and> dc_s3_analysis_config_output_path dc' \<noteq> dc_s3_analysis_config_output_path dc
         \<and> dc_s3_output_path dc =
             Join ''/'' [Str ''s3:/'', Str default_bucket, Str (arg_base_job_prefix a),
               ExecutionVariable PIPELINE_EXECUTION_ID, Str ''databiascheckstep'']
         \<and> dc_s3_output_path dc' =
             Join ''/'' [Str ''s3:/'', Str default_bucket, Str (arg_base_job_prefix a),
               ExecutionVariable PIPELINE_EXECUTION_ID, Str ''modelbiascheckstep'']
         \<and> dc_s3_analysis_config_output_path dc =
             ''s3://'' @ default_bucket @ ''/'' @ arg_base_job_prefix a
               @ ''/databiascheckstep/analysis_cfg''
         \<and> dc_s3_analysis_config_output_path dc' =
             ''s3://'' @ default_bucket @ ''/'' @ arg_base_job_prefix a
               @ ''/modelbiascheckstep/analysis_cfg''"
proof -
  from get_pipeline_Inr [OF assms] obtain role b
    where p: "p = pipeline env a role b" by blast
  show ?thesis
    unfolding p
    apply (rule exI [of _ "data_bias_data_config env a role b"])
    apply (rule exI [of _ "data_bias_config"])
    apply (rule exI [of _ "model_bias_data_config env a role b"])
    apply (rule exI [of _ "model_bias_config"])
    apply (rule exI [of _ "model_config env a role b"])
    apply (rule exI [of _ "step_create_model env a role b"])
    apply (rule exI [of _ "\<lparr>mcr_model = best_auto_ml_model env a role b,
                mcr_instance_type = ''ml.m5.xlarge''\<rparr>"])
    apply (rule exI [of _ b])
    apply (simp only: clarify_step_config_def find_step_pipeline simp_thms)
    apply (simp add: data_bias_check_step_def model_bias_check_step_def
             data_bias_check_config_def model_bias_check_config_def
             data_bias_data_config_def model_bias_data_config_def
             data_bias_config_def model_bias_config_def model_config_def
             step_create_model_def properties_def analysis_cfg_paths_differ
             data_bias_analysis_cfg_output_path_def model_bias_analysis_cfg_output_path_def)
    done
qed

theorem model_bias_mirrors_data_bias_witness:
  "get_pipeline example_env (default_args ''eu-west-1'') = Inr example_pipeline
   \<and> (\<exists>dc bc dc' mc.
          clarify_step_config example_pipeline ''DataBiasCheckStep''
            = Some (DataBiasCheckConfig dc bc)
        \<and> clarify_step_config example_pipeline ''ModelBiasCheckStep''
            = Some (ModelBiasCheckConfig dc' bc mc ModelPredictedLabelConfig)
        \<and> dc_headers dc' = dc_headers dc)"
  using example_returns model_bias_mirrors_data_bias [OF example_returns] by auto

text \<open>
  C7 as the specification words it fails: in the example pipeline the data configuration
  of the model-bias check is not that of the data-bias check, their output paths differ.
\<close>

theorem bias_checks_differ_in_output_path:
  "map_option clarify_output_path
       (clarify_step_config example_pipeline ''DataBiasCheckStep'')
     = Some (Join ''/'' [Str ''s3:/'', Str ''sagemaker-eu-west-1-111122223333'', Str ''HMDA'',
               ExecutionVariable PIPELINE_EXECUTION_ID, Str ''databiascheckstep''])
   \<and> map_option clarify_output_path
       (clarify_step_config example_pipeline ''ModelBiasCheckStep'')
     = Some (Join ''/'' [Str ''s3:/'', Str ''sagemaker-eu-west-1-111122223333'', Str ''HMDA'',
               ExecutionVariable PIPELINE_EXECUTION_ID, Str ''modelbiascheckstep''])
   \<and> map_option clarify_data_config (clarify_step_config example_pipeline ''DataBiasCheckStep'')
       \<noteq> map_option clarify_data_config
            (clarify_step_config example_pipeline ''ModelBiasCheckStep'')"
  by (simp add: example_pipeline_def clarify_step_config_def find_step_pipeline
        data_bias_check_step_def model_bias_check_step_def
        data_bias_check_config_def model_bias_check_config_def
        data_bias_data_config_def model_bias_data_config_def default_args_def
        clarify_output_path_def)

end
